theory Spec2Isabelle
  imports Main "HOL-Library.Sublist"
begin

section \<open>Python values\<close>

text \<open>
  The values that \<^verbatim>\<open>response.json()\<close> can produce and that the client passes around as
  \<^verbatim>\<open>Any\<close>: a decoded JSON document. A Python \<^verbatim>\<open>str\<close> is a \<open>string\<close>, each \<open>char\<close> standing
  for the code point of its number, so that the texts covered are those of code points
  below 256. A \<^verbatim>\<open>dict\<close> with string keys is an association list (keys unique, as a decoded
  document has them). JSON numbers with a fraction are not represented.
\<close>

datatype pyval =
    PyNone
  | PyBool bool
  | PyInt int
  | PyStr string
  | PyList "pyval list"
  | PyDict "(string \<times> pyval) list"

text \<open>Truth value of a Python object, as used by \<^verbatim>\<open>x or {}\<close> and \<^verbatim>\<open>if x\<close>.\<close>

fun truthy :: "pyval \<Rightarrow> bool" where
  "truthy PyNone = False"
| "truthy (PyBool b) = b"
| "truthy (PyInt n) = (n \<noteq> 0)"
| "truthy (PyStr s) = (s \<noteq> [])"
| "truthy (PyList xs) = (xs \<noteq> [])"
| "truthy (PyDict kvs) = (kvs \<noteq> [])"

text \<open>
  \<^verbatim>\<open>d.get(key, default)\<close>: on a dict the stored value or the default; any other object has
  no \<^verbatim>\<open>get\<close> attribute and the call raises (\<open>None\<close> here).
\<close>

fun dict_get :: "pyval \<Rightarrow> string \<Rightarrow> pyval \<Rightarrow> pyval option" where
  "dict_get (PyDict kvs) k dflt = (case map_of kvs k of Some v \<Rightarrow> Some v | None \<Rightarrow> Some dflt)"
| "dict_get v k dflt = None"

subsection \<open>Formatting: \<^verbatim>\<open>str\<close>, \<^verbatim>\<open>repr\<close> and f-strings\<close>

fun str_nat :: "nat \<Rightarrow> string" where
  "str_nat n =
     (if n < 10 then [''0123456789'' ! n]
      else str_nat (n div 10) @ [''0123456789'' ! (n mod 10)])"

declare str_nat.simps [simp del]

definition str_int :: "int \<Rightarrow> string" where
  "str_int i = (if i < 0 then CHR ''-'' # str_nat (nat (- i)) else str_nat (nat i))"

definition hex2 :: "nat \<Rightarrow> string" where
  "hex2 n = [''0123456789abcdef'' ! (n div 16 mod 16), ''0123456789abcdef'' ! (n mod 16)]"

text \<open>
  One character of \<^verbatim>\<open>repr\<close> of a string delimited by the quote \<open>q\<close>: backslash and the
  delimiter are escaped, and the characters that are not printable are written as escapes:
  of the code points below 256 these are 0 to 31, 127 to 160 and 173.
\<close>

definition repr_char :: "char \<Rightarrow> char \<Rightarrow> string" where
  "repr_char q c =
     (if c = CHR 0x5C then [CHR 0x5C, CHR 0x5C]
      else if c = q then [CHR 0x5C, q]
      else if c = CHR 0x0A then [CHR 0x5C, CHR ''n'']
      else if c = CHR 0x0D then [CHR 0x5C, CHR ''r'']
      else if c = CHR 0x09 then [CHR 0x5C, CHR ''t'']
      else if (of_char c :: nat) < 32
              \<or> (127 \<le> (of_char c :: nat) \<and> (of_char c :: nat) \<le> 160)
              \<or> (of_char c :: nat) = 173
        then [CHR 0x5C, CHR ''x''] @ hex2 (of_char c)
      else [c])"

definition repr_str :: "string \<Rightarrow> string" where
  "repr_str s =
     (let q = (if CHR 0x27 \<in> set s \<and> CHR 0x22 \<notin> set s then CHR 0x22 else CHR 0x27)
      in [q] @ concat (map (repr_char q) s) @ [q])"

fun py_repr :: "pyval \<Rightarrow> string"
  and py_repr_list :: "pyval list \<Rightarrow> string"
  and py_repr_items :: "(string \<times> pyval) list \<Rightarrow> string" where
  "py_repr PyNone = ''None''"
| "py_repr (PyBool b) = (if b then ''True'' else ''False'')"
| "py_repr (PyInt n) = str_int n"
| "py_repr (PyStr s) = repr_str s"
| "py_repr (PyList xs) = ''['' @ py_repr_list xs @ '']''"
| "py_repr (PyDict kvs) = ''{'' @ py_repr_items kvs @ ''}''"
| "py_repr_list [] = []"
| "py_repr_list (x # xs) = py_repr x @ (if xs = [] then [] else '', '' @ py_repr_list xs)"
| "py_repr_items [] = []"
| "py_repr_items (kv # kvs) =
     repr_str (fst kv) @ '': '' @ py_repr (snd kv)
       @ (if kvs = [] then [] else '', '' @ py_repr_items kvs)"

text \<open>\<^verbatim>\<open>str(x)\<close>, which is what \<^verbatim>\<open>f"{x}"\<close> inserts: a string as it is, anything else as its \<^verbatim>\<open>repr\<close>.\<close>

definition py_str :: "pyval \<Rightarrow> string" where
  "py_str v = (case v of PyStr s \<Rightarrow> s | _ \<Rightarrow> py_repr v)"

subsection \<open>Parsing: \<^verbatim>\<open>int(s)\<close> on a string\<close>

text \<open>
  \<^verbatim>\<open>int(s)\<close> in base ten, as the interpreter computes it in two steps. Whatever makes it
  fail, it raises \<^verbatim>\<open>ValueError\<close> (\<open>None\<close> here).

  First the text is brought to ASCII. A text that is ASCII already is taken as it is. In
  any other text the characters below 127 are kept, the whitespace characters from 127 on
  (of the code points below 256 these are 133 and 160) become a blank, and the first
  character that is neither ends the text with a question mark; no code point from 127 to
  255 is a decimal digit.
\<close>

fun to_ascii :: "string \<Rightarrow> string" where
  "to_ascii [] = []"
| "to_ascii (c # cs) =
     (if (of_char c :: nat) < 127 then c # to_ascii cs
      else if (of_char c :: nat) = 133 \<or> (of_char c :: nat) = 160 then CHR '' '' # to_ascii cs
      else ''?'')"

definition ascii_text :: "string \<Rightarrow> string" where
  "ascii_text s = (if list_all (\<lambda>c. (of_char c :: nat) < 128) s then s else to_ascii s)"

text \<open>
  Then the ASCII text is read: leading ASCII whitespace (9 to 13 and 32), one optional
  sign, a run of digits and underscores, trailing ASCII whitespace, and nothing else. The
  run has at least one digit, starts and ends with a digit and has no two underscores in a
  row; it has at most 4300 digits, the interpreter's default limit.
\<close>

definition is_space :: "char \<Rightarrow> bool" where
  "is_space c = (let n = (of_char c :: nat) in (9 \<le> n \<and> n \<le> 13) \<or> n = 32)"

definition is_digit :: "char \<Rightarrow> bool" where
  "is_digit c = (let n = (of_char c :: nat) in 48 \<le> n \<and> n \<le> 57)"

definition digit_val :: "char \<Rightarrow> int" where
  "digit_val c = int (of_char c) - 48"

definition digit_or_underscore :: "char \<Rightarrow> bool" where
  "digit_or_underscore c = (is_digit c \<or> c = CHR ''_'')"

text \<open>
  \<open>parse_digits after_digit acc cs\<close>: \<open>after_digit\<close> says that the previous character was a
  digit, so that an underscore or the end of the run may follow.
\<close>

fun parse_digits :: "bool \<Rightarrow> int \<Rightarrow> string \<Rightarrow> int option" where
  "parse_digits after_digit acc [] = (if after_digit then Some acc else None)"
| "parse_digits after_digit acc (c # cs) =
     (if is_digit c then parse_digits True (10 * acc + digit_val c) cs
      else if c = CHR ''_'' \<and> after_digit then
        (if cs = [] then None else parse_digits False acc cs)
      else None)"

definition int_of_ascii :: "string \<Rightarrow> int option" where
  "int_of_ascii t =
     (let u = dropWhile is_space t;
          negative = (case u of [] \<Rightarrow> False | c # cs \<Rightarrow> c = CHR ''-'');
          body = (case u of
                    [] \<Rightarrow> []
                  | c # cs \<Rightarrow> if c = CHR ''+'' \<or> c = CHR ''-'' then cs else u);
          run = takeWhile digit_or_underscore body;
          rest = dropWhile digit_or_underscore body
      in case parse_digits False 0 run of
           None \<Rightarrow> None
         | Some n \<Rightarrow>
             if 4300 < length (filter is_digit run) then None
             else if list_all is_space rest then Some (if negative then - n else n)
             else None)"

definition py_int :: "string \<Rightarrow> int option" where
  "py_int s = int_of_ascii (ascii_text s)"

text \<open>
  The same set of texts, described without the parser: whitespace, an optional sign, groups
  of digits joined by single underscores, whitespace; at most 4300 digits. Here whitespace
  is 9 to 13, 32, 133 and 160.
\<close>

definition int_space :: "char \<Rightarrow> bool" where
  "int_space c =
     (let n = (of_char c :: nat) in (9 \<le> n \<and> n \<le> 13) \<or> n = 32 \<or> n = 133 \<or> n = 160)"

inductive digit_groups :: "string \<Rightarrow> bool" where
  single: "is_digit c \<Longrightarrow> digit_groups [c]"
| next_digit: "is_digit c \<Longrightarrow> digit_groups cs \<Longrightarrow> digit_groups (c # cs)"
| next_group: "is_digit c \<Longrightarrow> digit_groups cs \<Longrightarrow> digit_groups (c # CHR ''_'' # cs)"

definition int_text :: "string \<Rightarrow> bool" where
  "int_text s \<longleftrightarrow>
     (\<exists>ws1 sg ds ws2.
        s = ws1 @ sg @ ds @ ws2 \<and> list_all int_space ws1 \<and> list_all int_space ws2
        \<and> (sg = [] \<or> sg = ''+'' \<or> sg = ''-'')
        \<and> digit_groups ds \<and> length (filter is_digit ds) \<le> 4300)"

text \<open>
  The characters that the step to ASCII keeps or turns into a blank, and what it makes of
  each of them.
\<close>

definition kept :: "char \<Rightarrow> bool" where
  "kept c =
     ((of_char c :: nat) < 127 \<or> (of_char c :: nat) = 133 \<or> (of_char c :: nat) = 160)"

definition norm_space :: "char \<Rightarrow> char" where
  "norm_space c =
     (if (of_char c :: nat) = 133 \<or> (of_char c :: nat) = 160 then CHR '' '' else c)"

section \<open>Configuration (\<^verbatim>\<open>utils/config.py\<close>)\<close>

text \<open>The fields of \<^verbatim>\<open>Config\<close> that the client reads.\<close>

record config =
  api_token :: "string option"
  timeout :: int
  max_retries :: int

section \<open>Exceptions (\<^verbatim>\<open>api/exceptions.py\<close>)\<close>

text \<open>The attributes that \<^verbatim>\<open>MatrixAPIError.__init__\<close> stores on every instance.\<close>

record api_error =
  message :: pyval
  status_code :: "int option"
  response_data :: pyval

text \<open>
  \<^verbatim>\<open>MatrixAPIError.__init__(message, status_code=None, response_data=None)\<close>; an absent
  argument is \<open>PyNone\<close>, and \<^verbatim>\<open>response_data or {}\<close> replaces every false value by the
  empty dict.
\<close>

definition api_error_init :: "pyval \<Rightarrow> int option \<Rightarrow> pyval \<Rightarrow> api_error" where
  "api_error_init m sc rd =
     \<lparr>message = m, status_code = sc,
      response_data = (if truthy rd then rd else PyDict [])\<rparr>"

text \<open>
  Every exception that can leave \<^verbatim>\<open>MatrixClient.request\<close>: the classes of the taxonomy
  (\<^verbatim>\<open>MatrixRateLimitError\<close> also stores \<^verbatim>\<open>retry_after\<close>), the transport exceptions of the
  HTTP library, and the built-in exceptions raised by decoding, by \<^verbatim>\<open>int\<close> and by reading
  a local variable that was never assigned (with the variable's name).
\<close>

datatype exn =
    MatrixAPIError api_error
  | MatrixConnectionError api_error
  | MatrixTimeoutError api_error
  | MatrixAuthError api_error
  | MatrixValidationError api_error
  | MatrixNotFoundError api_error
  | MatrixRateLimitError api_error "int option"
  | ConnectError
  | TimeoutException
  | TransportError
  | JSONDecodeError
  | ValueError
  | UnboundLocalError string

text \<open>The constructors of the subclasses, each calling the base constructor as the source does.\<close>

definition new_MatrixAPIError :: "pyval \<Rightarrow> int \<Rightarrow> pyval \<Rightarrow> exn" where
  "new_MatrixAPIError m sc rd = MatrixAPIError (api_error_init m (Some sc) rd)"

definition new_MatrixConnectionError :: "string \<Rightarrow> exn" where
  "new_MatrixConnectionError m = MatrixConnectionError (api_error_init (PyStr m) None PyNone)"

definition new_MatrixTimeoutError :: "string \<Rightarrow> exn" where
  "new_MatrixTimeoutError m = MatrixTimeoutError (api_error_init (PyStr m) None PyNone)"

definition new_MatrixAuthError :: "string \<Rightarrow> int \<Rightarrow> exn" where
  "new_MatrixAuthError m sc = MatrixAuthError (api_error_init (PyStr m) (Some sc) PyNone)"

definition new_MatrixValidationError :: "pyval \<Rightarrow> int \<Rightarrow> pyval \<Rightarrow> exn" where
  "new_MatrixValidationError m sc rd = MatrixValidationError (api_error_init m (Some sc) rd)"

definition new_MatrixNotFoundError :: "pyval \<Rightarrow> int \<Rightarrow> exn" where
  "new_MatrixNotFoundError m sc = MatrixNotFoundError (api_error_init m (Some sc) PyNone)"

definition new_MatrixRateLimitError :: "pyval \<Rightarrow> int \<Rightarrow> int option \<Rightarrow> exn" where
  "new_MatrixRateLimitError m sc ra = MatrixRateLimitError (api_error_init m (Some sc) PyNone) ra"

section \<open>The HTTP library as the client sees it\<close>

text \<open>
  A received \<^verbatim>\<open>httpx.Response\<close>, by what the client observes of it: the status code, the
  body bytes, the headers, the result of \<^verbatim>\<open>response.json()\<close> (\<open>None\<close> when decoding raises)
  and the text of the \<^verbatim>\<open>HTTPStatusError\<close> that \<^verbatim>\<open>raise_for_status()\<close> builds for it
  (the status line with the URL).
\<close>

record response =
  resp_status_code :: int
  resp_content :: string
  resp_headers :: "string \<rightharpoonup> string"
  resp_json :: "pyval option"
  resp_error_text :: string

text \<open>
  Modelled from the spec: \<^verbatim>\<open>Response.raise_for_status\<close> belongs to the HTTP library and is
  not part of the sources. The specification takes a response with status below 400 as
  received successfully and every status from 400 on as an error status, so the call
  raises \<^verbatim>\<open>HTTPStatusError\<close> exactly from 400 on.
\<close>

definition raise_for_status :: "response \<Rightarrow> bool" where
  "raise_for_status r = (resp_status_code r \<ge> 400)"

text \<open>
  What one call of \<^verbatim>\<open>self.client.request\<close> does: it raises \<^verbatim>\<open>httpx.ConnectError\<close>, raises a
  \<^verbatim>\<open>httpx.TimeoutException\<close>, raises another transport exception, or returns a response.
\<close>

datatype raw_outcome =
    ConnectFailure
  | TimeoutFailure
  | OtherFailure
  | Received response

text \<open>The request handed to the transport; further keyword arguments pass through untouched.\<close>

record http_request =
  req_method :: string
  req_url :: string
  req_headers :: "string \<rightharpoonup> string"

section \<open>The client (\<^verbatim>\<open>api/client.py\<close>)\<close>

subsection \<open>\<^verbatim>\<open>MatrixClient._get_headers\<close>\<close>

definition token_configured :: "config \<Rightarrow> bool" where
  "token_configured cfg = (case api_token cfg of None \<Rightarrow> False | Some t \<Rightarrow> t \<noteq> [])"

definition get_headers :: "config \<Rightarrow> (string \<rightharpoonup> string)" where
  "get_headers cfg =
     (let headers = [''Content-Type'' \<mapsto> ''application/json'',
                     ''Accept'' \<mapsto> ''application/json'',
                     ''User-Agent'' \<mapsto> ''matrix-system/1.0.0'']
      in case api_token cfg of
           None \<Rightarrow> headers
         | Some t \<Rightarrow> if t \<noteq> [] then headers(''Authorization'' \<mapsto> ''Bearer '' @ t) else headers)"

subsection \<open>\<^verbatim>\<open>MatrixClient._handle_response\<close>\<close>

definition token_hint :: string where
  "token_hint =
     '' (token missing: set MATRIX_HUB_TOKEN / MATRIX_TOKEN / API_TOKEN ''
     @ ''for operator/admin endpoints like install/remotes/ingest)''"

text \<open>
  The inner \<^verbatim>\<open>try\<close> of the error path. It returns the local variables \<^verbatim>\<open>error_data\<close>
  (\<open>None\<close> while the name is unbound) and \<^verbatim>\<open>error_message\<close>. When \<^verbatim>\<open>json()\<close> raises, only
  \<^verbatim>\<open>error_message\<close> is assigned; when \<^verbatim>\<open>json()\<close> returns and \<^verbatim>\<open>.get\<close> raises,
  \<^verbatim>\<open>error_data\<close> is already bound.
\<close>

definition extract_error :: "response \<Rightarrow> pyval option \<times> pyval" where
  "extract_error r =
     (case resp_json r of
        None \<Rightarrow> (None, PyStr (resp_error_text r))
      | Some error_data \<Rightarrow>
          (case dict_get error_data ''detail'' (PyStr (resp_error_text r)) of
             None \<Rightarrow> (Some error_data, PyStr (resp_error_text r))
           | Some error_message \<Rightarrow> (Some error_data, error_message)))"

text \<open>
  The result is \<open>Inr\<close> the returned value or \<open>Inl\<close> the raised exception. The logging call
  has no effect on either.
\<close>

definition handle_response :: "config \<Rightarrow> response \<Rightarrow> exn + pyval" where
  "handle_response cfg r =
     (if \<not> raise_for_status r then
        (if resp_content r \<noteq> [] then
           (case resp_json r of None \<Rightarrow> Inl JSONDecodeError | Some v \<Rightarrow> Inr v)
         else Inr (PyDict []))
      else
        (let status = resp_status_code r;
             error_data = fst (extract_error r);
             error_message = snd (extract_error r)
         in if status = 401 \<or> status = 403 then
              (let hint = (if \<not> token_configured cfg then token_hint else [])
               in Inl (new_MatrixAuthError (py_str error_message @ hint) status))
            else if status = 404 then
              Inl (new_MatrixNotFoundError error_message status)
            else if status = 422 then
              (case error_data of
                 None \<Rightarrow> Inl (UnboundLocalError ''error_data'')
               | Some d \<Rightarrow> Inl (new_MatrixValidationError error_message status d))
            else if status = 429 then
              (case resp_headers r ''Retry-After'' of
                 None \<Rightarrow> Inl (new_MatrixRateLimitError error_message status None)
               | Some retry_after \<Rightarrow>
                   if retry_after \<noteq> [] then
                     (case py_int retry_after of
                        None \<Rightarrow> Inl ValueError
                      | Some n \<Rightarrow> Inl (new_MatrixRateLimitError error_message status (Some n)))
                   else Inl (new_MatrixRateLimitError error_message status None))
            else
              (case error_data of
                 None \<Rightarrow> Inl (UnboundLocalError ''error_data'')
               | Some d \<Rightarrow> Inl (new_MatrixAPIError error_message status d))))"

subsection \<open>\<^verbatim>\<open>MatrixClient.request\<close>\<close>

text \<open>The body of the \<^verbatim>\<open>try\<close> in the loop: one transport call, then \<^verbatim>\<open>_handle_response\<close>.\<close>

definition attempt :: "config \<Rightarrow> raw_outcome \<Rightarrow> exn + pyval" where
  "attempt cfg out =
     (case out of
        ConnectFailure \<Rightarrow> Inl ConnectError
      | TimeoutFailure \<Rightarrow> Inl TimeoutException
      | OtherFailure \<Rightarrow> Inl TransportError
      | Received r \<Rightarrow> handle_response cfg r)"

text \<open>
  The classes named by \<^verbatim>\<open>except (MatrixAuthError, MatrixValidationError, MatrixNotFoundError)\<close>
  and by \<^verbatim>\<open>except MatrixRateLimitError\<close>; both clauses re-raise.
\<close>

definition is_client_error :: "exn \<Rightarrow> bool" where
  "is_client_error e =
     (case e of
        MatrixAuthError _ \<Rightarrow> True
      | MatrixValidationError _ \<Rightarrow> True
      | MatrixNotFoundError _ \<Rightarrow> True
      | _ \<Rightarrow> False)"

definition is_rate_limit_error :: "exn \<Rightarrow> bool" where
  "is_rate_limit_error e = (case e of MatrixRateLimitError _ _ \<Rightarrow> True | _ \<Rightarrow> False)"

definition connect_message :: "string \<Rightarrow> int \<Rightarrow> string" where
  "connect_message url retries =
     ''Failed to connect to '' @ url @ '' after '' @ str_int retries @ '' attempts''"

definition timeout_message :: "config \<Rightarrow> string \<Rightarrow> string" where
  "timeout_message cfg url =
     ''Request to '' @ url @ '' timed out after '' @ str_int (timeout cfg) @ ''s''"

text \<open>
  The \<^verbatim>\<open>while\<close> loop with its local variables \<^verbatim>\<open>retries\<close> and \<^verbatim>\<open>last_exception\<close>. The
  network is \<open>tr\<close>: the outcome of the \<open>k\<close>-th transport call of this logical call, counted
  from 0. \<open>sent\<close> is the list of requests handed to the transport so far, so its length is
  the number of attempts made; it is returned with the result. The four \<^verbatim>\<open>except\<close>
  clauses are tried in the order of the source; an exception that none of them names
  leaves the loop unhandled.
\<close>

function request_loop ::
  "config \<Rightarrow> (nat \<Rightarrow> raw_outcome) \<Rightarrow> http_request \<Rightarrow> int \<Rightarrow> exn option \<Rightarrow> http_request list
     \<Rightarrow> (exn + pyval) \<times> http_request list" where
  "request_loop cfg tr req retries last_exception sent =
     (if retries \<le> max_retries cfg then
        (case attempt cfg (tr (length sent)) of
           Inr v \<Rightarrow> (Inr v, sent @ [req])
         | Inl e \<Rightarrow>
             if e = ConnectError then
               (if retries + 1 > max_retries cfg
                then (Inl (new_MatrixConnectionError (connect_message (req_url req) (retries + 1))),
                      sent @ [req])
                else request_loop cfg tr req (retries + 1) (Some e) (sent @ [req]))
             else if e = TimeoutException then
               (if retries + 1 > max_retries cfg
                then (Inl (new_MatrixTimeoutError (timeout_message cfg (req_url req))),
                      sent @ [req])
                else request_loop cfg tr req (retries + 1) (Some e) (sent @ [req]))
             else if is_client_error e then (Inl e, sent @ [req])
             else if is_rate_limit_error e then (Inl e, sent @ [req])
             else (Inl e, sent @ [req]))
      else
        (case last_exception of
           Some e \<Rightarrow> (Inl (new_MatrixConnectionError (connect_message (req_url req) retries)), sent)
         | None \<Rightarrow> (Inr (PyDict []), sent)))"
  by pat_completeness auto
termination
  by (relation "measure (\<lambda>(cfg, tr, req, retries, last_exception, sent).
                   nat (max_retries cfg + 1 - retries))") auto

declare request_loop.simps [simp del]

text \<open>
  \<^verbatim>\<open>request(method, url, headers=...)\<close>: the caller's header dict (empty when absent) is
  updated with the client's headers, then the loop starts with \<^verbatim>\<open>retries = 0\<close> and no
  exception seen.
\<close>

definition request ::
  "config \<Rightarrow> (nat \<Rightarrow> raw_outcome) \<Rightarrow> string \<Rightarrow> string \<Rightarrow> (string \<rightharpoonup> string)
     \<Rightarrow> (exn + pyval) \<times> http_request list" where
  "request cfg tr method url headers =
     request_loop cfg tr
       \<lparr>req_method = method, req_url = url, req_headers = headers ++ get_headers cfg\<rparr>
       0 None []"

section \<open>Example inputs\<close>

text \<open>Concrete configurations, networks and responses at which the results below are run.\<close>

definition example_config :: config where
  "example_config = \<lparr>api_token = None, timeout = 30, max_retries = 2\<rparr>"

definition example_config_token :: config where
  "example_config_token = \<lparr>api_token = Some ''s3cr3t'', timeout = 30, max_retries = 2\<rparr>"

definition no_retry_config :: config where
  "no_retry_config = \<lparr>api_token = None, timeout = 30, max_retries = 0\<rparr>"

definition short_timeout_config :: config where
  "short_timeout_config = \<lparr>api_token = None, timeout = 10, max_retries = 2\<rparr>"

definition echo_detail :: string where
  "echo_detail =
     ''denied (token missing: set MATRIX_HUB_TOKEN / MATRIX_TOKEN / API_TOKEN ''
     @ ''for operator/admin endpoints like install/remotes/ingest)''"

definition no_headers :: "string \<rightharpoonup> string" where
  "no_headers = Map.empty"

definition caller_headers :: "string \<rightharpoonup> string" where
  "caller_headers =
     [''Content-Type'' \<mapsto> ''text/plain'', ''Authorization'' \<mapsto> ''Basic abc'',
      ''X-Trace'' \<mapsto> ''t1'']"

definition refuse_all :: "nat \<Rightarrow> raw_outcome" where
  "refuse_all k = ConnectFailure"

definition time_out_all :: "nat \<Rightarrow> raw_outcome" where
  "time_out_all k = TimeoutFailure"

definition answer_after :: "nat \<Rightarrow> response \<Rightarrow> nat \<Rightarrow> raw_outcome" where
  "answer_after n r k = (if k < n then ConnectFailure else Received r)"

definition example_response ::
  "int \<Rightarrow> string \<Rightarrow> pyval option \<Rightarrow> (string \<rightharpoonup> string) \<Rightarrow> response" where
  "example_response status body decoded headers =
     \<lparr>resp_status_code = status, resp_content = body, resp_headers = headers,
      resp_json = decoded, resp_error_text = ''HTTP error '' @ str_int status\<rparr>"

definition example_request :: "config \<Rightarrow> (string \<rightharpoonup> string) \<Rightarrow> http_request" where
  "example_request cfg headers =
     \<lparr>req_method = ''GET'', req_url = ''http://h'', req_headers = headers ++ get_headers cfg\<rparr>"

section \<open>Properties of \<^verbatim>\<open>int\<close> on a string\<close>

text \<open>The reader at some texts, among them whitespace that only one of the two steps drops.\<close>

lemma py_int_probes:
  "py_int ''7'' = Some 7"
  "py_int '' +1_0  '' = Some 10"
  "py_int ''-007'' = Some (- 7)"
  "py_int [CHR 0xA0, CHR ''7''] = Some 7"
  "py_int [CHR ''7'', CHR 0x85] = Some 7"
  "py_int [CHR 0x1C, CHR ''7''] = None"
  "py_int [CHR ''7'', CHR 0x1F] = None"
  "py_int ''1__0'' = None"
  "py_int ''- 7'' = None"
  "py_int ''Wed, 21 Oct 2015 07:28:00 GMT'' = None"
  by code_simp+

text \<open>The character classes do not overlap.\<close>

lemma digit_not_space: "is_digit c \<Longrightarrow> \<not> is_space c"
  by (auto simp: is_digit_def is_space_def Let_def)

lemma space_not_run: "is_space c \<Longrightarrow> \<not> digit_or_underscore c"
  by (auto simp: is_digit_def is_space_def digit_or_underscore_def Let_def)

lemma sign_not_space: "\<not> is_space CHR ''+''" "\<not> is_space CHR ''-''"
  by (simp_all add: is_space_def)

lemma digit_not_sign: "is_digit c \<Longrightarrow> c \<noteq> CHR ''+'' \<and> c \<noteq> CHR ''-'' \<and> c \<noteq> CHR ''_''"
  by (auto simp: is_digit_def)

lemma digit_groups_hd: "digit_groups ds \<Longrightarrow> \<exists>c cs. ds = c # cs \<and> is_digit c"
  by (induction rule: digit_groups.induct) auto

lemma digit_groups_run: "digit_groups ds \<Longrightarrow> list_all digit_or_underscore ds"
  by (induction rule: digit_groups.induct) (auto simp: digit_or_underscore_def)

text \<open>The recogniser accepts exactly the digit groups.\<close>

lemma parse_digits_sound:
  "parse_digits b acc cs = Some n \<Longrightarrow>
     (if b then cs = [] \<or> digit_groups cs \<or> (\<exists>cs'. cs = CHR ''_'' # cs' \<and> digit_groups cs')
      else digit_groups cs)"
proof (induction cs arbitrary: b acc)
  case Nil
  then show ?case by (simp split: if_splits)
next
  case (Cons c cs)
  show ?case
  proof (cases "is_digit c")
    case True
    with Cons.prems have "parse_digits True (10 * acc + digit_val c) cs = Some n" by simp
    from Cons.IH [OF this] have
      "cs = [] \<or> digit_groups cs \<or> (\<exists>cs'. cs = CHR ''_'' # cs' \<and> digit_groups cs')" by simp
    with True have "digit_groups (c # cs)"
      by (auto intro: digit_groups.intros)
    then show ?thesis by simp
  next
    case False
    with Cons.prems have c: "c = CHR ''_''" and b: b and ne: "cs \<noteq> []"
      and rest: "parse_digits False acc cs = Some n"
      by (auto split: if_splits)
    from Cons.IH [OF rest] have "digit_groups cs" by simp
    with c b show ?thesis by simp
  qed
qed

lemma parse_digits_complete:
  "digit_groups cs \<Longrightarrow> \<exists>n. parse_digits b acc cs = Some n"
proof (induction arbitrary: b acc rule: digit_groups.induct)
  case (single c)
  then show ?case by simp
next
  case (next_digit c cs)
  then show ?case by simp
next
  case (next_group c cs)
  from next_group.hyps(2) have "cs \<noteq> []" by (auto dest: digit_groups_hd)
  moreover have "\<not> is_digit CHR ''_''" by (simp add: is_digit_def)
  ultimately show ?case using next_group by simp
qed

text \<open>Which ASCII texts the reader accepts.\<close>

lemma int_of_ascii_sound:
  assumes "int_of_ascii t = Some k"
  shows "\<exists>ws1 sg ds ws2.
        t = ws1 @ sg @ ds @ ws2 \<and> list_all is_space ws1 \<and> list_all is_space ws2
        \<and> (sg = [] \<or> sg = ''+'' \<or> sg = ''-'')
        \<and> digit_groups ds \<and> length (filter is_digit ds) \<le> 4300"
proof -
  define u where "u = dropWhile is_space t"
  define body where
    "body = (case u of [] \<Rightarrow> [] | c # cs \<Rightarrow> if c = CHR ''+'' \<or> c = CHR ''-'' then cs else u)"
  define run where "run = takeWhile digit_or_underscore body"
  define rest where "rest = dropWhile digit_or_underscore body"
  from assms obtain n where parsed: "parse_digits False 0 run = Some n"
    and few: "length (filter is_digit run) \<le> 4300" and blank: "list_all is_space rest"
    unfolding int_of_ascii_def Let_def u_def [symmetric] body_def [symmetric]
      run_def [symmetric] rest_def [symmetric]
    by (auto split: option.splits if_splits)
  have t: "t = takeWhile is_space t @ u" by (simp add: u_def)
  have lead: "list_all is_space (takeWhile is_space t)"
    by (auto simp: list_all_iff dest: set_takeWhileD)
  have "\<exists>sg. u = sg @ body \<and> (sg = [] \<or> sg = ''+'' \<or> sg = ''-'')"
  proof (cases u)
    case Nil
    then show ?thesis by (simp add: body_def)
  next
    case (Cons c cs)
    show ?thesis
    proof (cases "c = CHR ''+'' \<or> c = CHR ''-''")
      case True
      with Cons have "u = [c] @ body" by (simp add: body_def)
      with True show ?thesis by blast
    next
      case False
      with Cons have "u = [] @ body" by (simp add: body_def)
      then show ?thesis by blast
    qed
  qed
  then obtain sg where u: "u = sg @ body" and sg: "sg = [] \<or> sg = ''+'' \<or> sg = ''-''"
    by blast
  have body: "body = run @ rest" by (simp add: run_def rest_def)
  from parse_digits_sound [OF parsed] have "digit_groups run" by simp
  with t u body sg few blank lead show ?thesis by metis
qed

lemma int_of_ascii_complete:
  assumes "t = ws1 @ sg @ ds @ ws2" and "list_all is_space ws1" and "list_all is_space ws2"
    and "sg = [] \<or> sg = ''+'' \<or> sg = ''-''"
    and "digit_groups ds" and "length (filter is_digit ds) \<le> 4300"
  shows "\<exists>k. int_of_ascii t = Some k"
proof -
  from assms(5) obtain d ds' where ds: "ds = d # ds'" and d: "is_digit d"
    by (auto dest: digit_groups_hd)
  define body where "body = ds @ ws2"
  have u: "dropWhile is_space t = sg @ body"
  proof -
    have "dropWhile is_space t = dropWhile is_space (sg @ body)"
      using assms(2) by (simp add: assms(1) body_def list_all_iff)
    also have "\<dots> = sg @ body"
      using assms(4) d by (auto simp: body_def ds sign_not_space digit_not_space)
    finally show ?thesis .
  qed
  have run: "takeWhile digit_or_underscore body = ds"
    and rest: "dropWhile digit_or_underscore body = ws2"
    using digit_groups_run [OF assms(5)] assms(3)
    by (cases ws2; simp add: body_def list_all_iff space_not_run)+
  have chosen: "(case sg @ body of [] \<Rightarrow> []
      | c # cs \<Rightarrow> if c = CHR ''+'' \<or> c = CHR ''-'' then cs else sg @ body) = body"
    using assms(4) d by (auto simp: body_def ds dest: digit_not_sign)
  from parse_digits_complete [OF assms(5)] obtain n where "parse_digits False 0 ds = Some n"
    by blast
  with assms(3,6) show ?thesis
    by (simp add: int_of_ascii_def Let_def u chosen run rest)
qed

text \<open>The step to ASCII, on texts of kept characters and on the others.\<close>

lemma to_ascii_kept: "list_all kept s \<Longrightarrow> to_ascii s = map norm_space s"
  by (induction s) (auto simp: kept_def norm_space_def)

lemma norm_space_ascii: "(of_char c :: nat) < 128 \<Longrightarrow> norm_space c = c"
  by (simp add: norm_space_def)

lemma ascii_text_kept: "list_all kept s \<Longrightarrow> ascii_text s = map norm_space s"
proof (cases "list_all (\<lambda>c. (of_char c :: nat) < 128) s")
  case True
  then have "map norm_space s = s"
    by (intro map_idI) (simp add: list_all_iff norm_space_ascii)
  with True show ?thesis by (simp add: ascii_text_def)
next
  case False
  assume "list_all kept s"
  with False show ?thesis by (simp add: ascii_text_def to_ascii_kept)
qed

lemma to_ascii_not_kept: "\<not> list_all kept s \<Longrightarrow> CHR ''?'' \<in> set (to_ascii s)"
  by (induction s) (auto simp: kept_def)

lemma ascii_text_not_kept:
  assumes "\<not> list_all kept s"
  shows "\<exists>c \<in> set (ascii_text s). c = CHR ''?'' \<or> (of_char c :: nat) = 127"
proof (cases "list_all (\<lambda>c. (of_char c :: nat) < 128) s")
  case True
  from assms obtain c where c: "c \<in> set s" "\<not> kept c" by (auto simp: list_all_iff)
  with True have "(of_char c :: nat) < 128" by (simp add: list_all_iff)
  with c(2) have "(of_char c :: nat) = 127" by (simp add: kept_def)
  with c(1) True show ?thesis by (auto simp: ascii_text_def)
next
  case False
  with assms show ?thesis by (auto simp: ascii_text_def dest: to_ascii_not_kept)
qed

text \<open>What the pieces of an accepted text are made of.\<close>

lemma space_plain: "is_space c \<Longrightarrow> c \<noteq> CHR ''?'' \<and> (of_char c :: nat) \<noteq> 127 \<and> int_space c"
  by (auto simp: is_space_def int_space_def Let_def)

lemma run_plain:
  "digit_or_underscore c \<Longrightarrow>
     c \<noteq> CHR ''?'' \<and> (of_char c :: nat) \<noteq> 127 \<and> c \<noteq> CHR '' '' \<and> kept c"
  by (auto simp: digit_or_underscore_def is_digit_def kept_def Let_def)

lemma int_space_norm: "int_space c \<Longrightarrow> is_space (norm_space c) \<and> kept c"
  by (auto simp: int_space_def is_space_def norm_space_def kept_def Let_def)

lemma norm_space_is_space: "is_space (norm_space c) \<Longrightarrow> int_space c"
  by (auto simp: int_space_def is_space_def norm_space_def Let_def split: if_splits)

lemma map_norm_space_id:
  assumes "CHR '' '' \<notin> set (map norm_space xs)"
  shows "map norm_space xs = xs"
  using assms by (induction xs) (auto simp: norm_space_def split: if_splits)

lemma map_norm_space_same:
  assumes "list_all (\<lambda>c. (of_char c :: nat) < 128) xs"
  shows "map norm_space xs = xs"
  using assms by (intro map_idI) (simp add: list_all_iff norm_space_ascii)

lemma run_ascii: "digit_or_underscore c \<Longrightarrow> (of_char c :: nat) < 128"
  by (auto simp: digit_or_underscore_def is_digit_def Let_def)

text \<open>\<^verbatim>\<open>int\<close> accepts exactly the texts described by \<open>int_text\<close>.\<close>

lemma py_int_sound:
  assumes "py_int s = Some k"
  shows "int_text s"
proof -
  from assms have "int_of_ascii (ascii_text s) = Some k" by (simp add: py_int_def)
  from int_of_ascii_sound [OF this] obtain A B C D where
    parts: "ascii_text s = A @ B @ C @ D" and A: "list_all is_space A" and D: "list_all is_space D"
    and B: "B = [] \<or> B = ''+'' \<or> B = ''-''" and C: "digit_groups C"
    and few: "length (filter is_digit C) \<le> 4300"
    by blast
  from C have run: "list_all digit_or_underscore C" by (rule digit_groups_run)
  have plain: "c \<noteq> CHR ''?'' \<and> (of_char c :: nat) \<noteq> 127" if "c \<in> set (ascii_text s)" for c
  proof -
    from that parts consider "c \<in> set A" | "c \<in> set B" | "c \<in> set C" | "c \<in> set D"
      by auto
    then show ?thesis
    proof cases
      case 1
      with A have "is_space c" by (simp add: list_all_iff)
      then show ?thesis by (simp add: space_plain)
    next
      case 2
      with B have "c = CHR ''+'' \<or> c = CHR ''-''" by auto
      then show ?thesis by auto
    next
      case 3
      with run have "digit_or_underscore c" by (simp add: list_all_iff)
      then show ?thesis by (simp add: run_plain)
    next
      case 4
      with D have "is_space c" by (simp add: list_all_iff)
      then show ?thesis by (simp add: space_plain)
    qed
  qed
  have kept: "list_all kept s"
  proof (rule ccontr)
    assume "\<not> list_all kept s"
    from ascii_text_not_kept [OF this] plain show False by blast
  qed
  with parts have whole: "map norm_space s = A @ (B @ (C @ D))" by (simp add: ascii_text_kept)
  from map_eq_append_conv [THEN iffD1, OF whole]
  obtain a r1 where s1: "s = a @ r1" and a: "A = map norm_space a"
    and r1: "B @ (C @ D) = map norm_space r1"
    by blast
  from map_eq_append_conv [THEN iffD1, OF r1 [symmetric]]
  obtain b r2 where s2: "r1 = b @ r2" and b: "B = map norm_space b"
    and r2: "C @ D = map norm_space r2"
    by blast
  from map_eq_append_conv [THEN iffD1, OF r2 [symmetric]]
  obtain c d where s3: "r2 = c @ d" and c: "C = map norm_space c"
    and d: "D = map norm_space d"
    by blast
  from B have "CHR '' '' \<notin> set B" by auto
  with b have b': "b = B" using map_norm_space_id [of b] by simp
  from run have "CHR '' '' \<notin> set C" by (auto simp: list_all_iff dest: run_plain)
  with c have c': "c = C" using map_norm_space_id [of c] by simp
  from A have "list_all is_space (map norm_space a)" by (simp only: a)
  then have a': "list_all int_space a"
    by (simp add: list_all_iff norm_space_is_space)
  from D have "list_all is_space (map norm_space d)" by (simp only: d)
  then have d': "list_all int_space d"
    by (simp add: list_all_iff norm_space_is_space)
  have "s = a @ B @ C @ d" by (simp add: s1 s2 s3 b' c')
  with a' d' B C few show ?thesis unfolding int_text_def by blast
qed

lemma py_int_complete:
  assumes "int_text s"
  shows "\<exists>k. py_int s = Some k"
proof -
  from assms obtain a sg ds d where s: "s = a @ sg @ ds @ d"
    and a: "list_all int_space a" and d: "list_all int_space d"
    and sg: "sg = [] \<or> sg = ''+'' \<or> sg = ''-''" and ds: "digit_groups ds"
    and few: "length (filter is_digit ds) \<le> 4300"
    unfolding int_text_def by blast
  from ds have run: "list_all digit_or_underscore ds" by (rule digit_groups_run)
  from sg have sg_ascii: "list_all (\<lambda>c. (of_char c :: nat) < 128) sg" by auto
  from run have ds_ascii: "list_all (\<lambda>c. (of_char c :: nat) < 128) ds"
    by (auto simp: list_all_iff dest: run_ascii)
  have "list_all kept a" "list_all kept d"
    using a d by (simp_all add: list_all_iff int_space_norm)
  moreover have "list_all kept sg"
    using sg by (auto simp: kept_def)
  moreover have "list_all kept ds"
    using run by (simp add: list_all_iff run_plain)
  ultimately have "list_all kept s" by (simp add: s)
  then have shape: "ascii_text s = map norm_space a @ sg @ ds @ map norm_space d"
    by (simp add: ascii_text_kept s map_norm_space_same [OF sg_ascii]
        map_norm_space_same [OF ds_ascii])
  have lead: "list_all is_space (map norm_space a)"
    and trail: "list_all is_space (map norm_space d)"
    using a d by (simp_all add: list_all_iff int_space_norm)
  from int_of_ascii_complete [OF shape lead trail sg ds few]
  have "\<exists>k. int_of_ascii (ascii_text s) = Some k" .
  then show ?thesis by (simp add: py_int_def)
qed

lemma py_int_rejects: "py_int s = None \<longleftrightarrow> \<not> int_text s"
  using py_int_sound [of s] py_int_complete [of s] by (cases "py_int s") auto

section \<open>Properties of the retry loop\<close>

text \<open>\<^verbatim>\<open>_handle_response\<close> never raises one of the two exceptions that the loop retries.\<close>

lemma handle_response_not_transport:
  "handle_response cfg r \<noteq> Inl ConnectError" "handle_response cfg r \<noteq> Inl TimeoutException"
  by (simp_all add: handle_response_def Let_def new_MatrixAuthError_def new_MatrixNotFoundError_def
      new_MatrixValidationError_def new_MatrixRateLimitError_def new_MatrixAPIError_def
      split: option.splits)

lemma attempt_ConnectError: "attempt cfg out = Inl ConnectError \<longleftrightarrow> out = ConnectFailure"
  by (cases out) (simp_all add: attempt_def handle_response_not_transport)

lemma attempt_TimeoutException: "attempt cfg out = Inl TimeoutException \<longleftrightarrow> out = TimeoutFailure"
  by (cases out) (simp_all add: attempt_def handle_response_not_transport)

text \<open>One iteration, by the outcome of its transport call.\<close>

lemma loop_received:
  assumes "retries \<le> max_retries cfg" "tr (length sent) = Received r"
  shows "request_loop cfg tr req retries last_exception sent = (handle_response cfg r, sent @ [req])"
proof (cases "handle_response cfg r")
  case (Inl e)
  with handle_response_not_transport [of cfg r] have "e \<noteq> ConnectError" "e \<noteq> TimeoutException"
    by auto
  with assms Inl show ?thesis
    by (subst request_loop.simps) (simp add: attempt_def)
next
  case (Inr v)
  with assms show ?thesis
    by (subst request_loop.simps) (simp add: attempt_def)
qed

lemma loop_connect_last:
  assumes "retries = max_retries cfg" "tr (length sent) = ConnectFailure"
  shows "request_loop cfg tr req retries last_exception sent =
    (Inl (new_MatrixConnectionError (connect_message (req_url req) (retries + 1))), sent @ [req])"
  using assms by (subst request_loop.simps) (simp add: attempt_def)

lemma loop_timeout_last:
  assumes "retries = max_retries cfg" "tr (length sent) = TimeoutFailure"
  shows "request_loop cfg tr req retries last_exception sent =
    (Inl (new_MatrixTimeoutError (timeout_message cfg (req_url req))), sent @ [req])"
  using assms by (subst request_loop.simps) (simp add: attempt_def)

lemma loop_transient_step:
  assumes "retries < max_retries cfg"
    and "tr (length sent) = ConnectFailure \<or> tr (length sent) = TimeoutFailure"
  shows "\<exists>e. request_loop cfg tr req retries last_exception sent =
    request_loop cfg tr req (retries + 1) (Some e) (sent @ [req])"
  using assms by (subst request_loop.simps) (auto simp add: attempt_def)

text \<open>While the budget is not used up, the value of \<^verbatim>\<open>last_exception\<close> is never read.\<close>

lemma loop_last_exception_irrelevant:
  assumes "retries \<le> max_retries cfg"
  shows "request_loop cfg tr req retries l sent = request_loop cfg tr req retries l' sent"
  using assms
  by (subst request_loop.simps [of _ _ _ _ l]) (subst request_loop.simps [of _ _ _ _ l'], simp)

text \<open>A run of \<open>j\<close> transient failures inside the budget costs \<open>j\<close> attempts and \<open>j\<close> retries.\<close>

lemma loop_transient_run:
  assumes "\<forall>k<j. tr (length sent + k) = ConnectFailure \<or> tr (length sent + k) = TimeoutFailure"
    and "retries + int j \<le> max_retries cfg"
  shows "request_loop cfg tr req retries l sent =
    request_loop cfg tr req (retries + int j) l' (sent @ replicate j req)"
  using assms
proof (induction j arbitrary: retries sent l)
  case 0
  then show ?case by (simp add: loop_last_exception_irrelevant [where l = l and l' = l'])
next
  case (Suc j)
  from Suc.prems have first: "tr (length sent) = ConnectFailure \<or> tr (length sent) = TimeoutFailure"
    by (metis add.right_neutral zero_less_Suc)
  from Suc.prems have lt: "retries < max_retries cfg" by simp
  from loop_transient_step [where tr = tr and sent = sent, OF lt first] obtain e where
    step: "request_loop cfg tr req retries l sent =
      request_loop cfg tr req (retries + 1) (Some e) (sent @ [req])" by blast
  have rest: "\<forall>k<j. tr (length (sent @ [req]) + k) = ConnectFailure
      \<or> tr (length (sent @ [req]) + k) = TimeoutFailure"
    using Suc.prems(1) by (metis Suc_less_eq add_Suc_shift length_append_singleton)
  have "request_loop cfg tr req (retries + 1) (Some e) (sent @ [req]) =
    request_loop cfg tr req (retries + 1 + int j) l' ((sent @ [req]) @ replicate j req)"
    using Suc.prems(2) rest by (intro Suc.IH [where sent = "sent @ [req]"]) simp_all
  with step show ?case by (simp add: ac_simps)
qed

text \<open>How the loop ends, and what it has sent by then.\<close>

lemma loop_exhausted:
  assumes "\<not> retries \<le> max_retries cfg"
  shows "snd (request_loop cfg tr req retries l sent) = sent"
  using assms by (subst request_loop.simps) (simp split: option.splits)

lemma loop_other:
  assumes "retries \<le> max_retries cfg" "tr (length sent) = OtherFailure"
  shows "request_loop cfg tr req retries l sent = (Inl TransportError, sent @ [req])"
  using assms by (subst request_loop.simps) (simp add: attempt_def)

lemma loop_stop:
  assumes "retries \<le> max_retries cfg"
    and "\<not> (retries < max_retries cfg
          \<and> (tr (length sent) = ConnectFailure \<or> tr (length sent) = TimeoutFailure))"
  shows "snd (request_loop cfg tr req retries l sent) = sent @ [req]"
proof (cases "tr (length sent)")
  case ConnectFailure
  with assms have "retries = max_retries cfg" by simp
  with ConnectFailure show ?thesis by (simp add: loop_connect_last)
next
  case TimeoutFailure
  with assms have "retries = max_retries cfg" by simp
  with TimeoutFailure show ?thesis by (simp add: loop_timeout_last)
next
  case OtherFailure
  with assms(1) show ?thesis by (simp add: loop_other)
next
  case (Received r)
  with assms(1) show ?thesis by (simp add: loop_received)
qed

text \<open>Every request handed to the transport is the one request built at the start.\<close>

lemma loop_sent:
  "\<exists>j. snd (request_loop cfg tr req retries l sent) = sent @ replicate j req"
proof (induction n \<equiv> "nat (max_retries cfg + 1 - retries)" arbitrary: retries sent l)
  case 0
  then have "snd (request_loop cfg tr req retries l sent) = sent @ replicate 0 req"
    by (simp add: loop_exhausted)
  then show ?case by blast
next
  case (Suc n)
  then have in_budget: "retries \<le> max_retries cfg" by simp
  show ?case
  proof (cases "retries < max_retries cfg
      \<and> (tr (length sent) = ConnectFailure \<or> tr (length sent) = TimeoutFailure)")
    case True
    with loop_transient_step [where tr = tr and sent = sent] obtain e where
      step: "request_loop cfg tr req retries l sent =
        request_loop cfg tr req (retries + 1) (Some e) (sent @ [req])" by blast
    from Suc.hyps(2) have "n = nat (max_retries cfg + 1 - (retries + 1))" by simp
    from Suc.hyps(1) [OF this] obtain j where
      "snd (request_loop cfg tr req (retries + 1) (Some e) (sent @ [req])) =
         (sent @ [req]) @ replicate j req" by blast
    with step have "snd (request_loop cfg tr req retries l sent) = sent @ replicate (Suc j) req"
      by simp
    then show ?thesis by blast
  next
    case False
    with in_budget have "snd (request_loop cfg tr req retries l sent) = sent @ replicate 1 req"
      by (simp add: loop_stop)
    then show ?thesis by blast
  qed
qed

text \<open>An attempt that is followed by another one ended in a connect failure or a timeout.\<close>

lemma loop_retried_transient:
  assumes "length sent \<le> i" "Suc i < length (snd (request_loop cfg tr req retries l sent))"
  shows "tr i = ConnectFailure \<or> tr i = TimeoutFailure"
  using assms
proof (induction n \<equiv> "nat (max_retries cfg + 1 - retries)" arbitrary: retries sent l)
  case 0
  then show ?case by (simp add: loop_exhausted)
next
  case (Suc n)
  then have in_budget: "retries \<le> max_retries cfg" by simp
  show ?case
  proof (cases "retries < max_retries cfg
      \<and> (tr (length sent) = ConnectFailure \<or> tr (length sent) = TimeoutFailure)")
    case True
    with loop_transient_step [where tr = tr and sent = sent] obtain e where
      step: "request_loop cfg tr req retries l sent =
        request_loop cfg tr req (retries + 1) (Some e) (sent @ [req])" by blast
    show ?thesis
    proof (cases "i = length sent")
      case True
      with \<open>retries < max_retries cfg
        \<and> (tr (length sent) = ConnectFailure \<or> tr (length sent) = TimeoutFailure)\<close>
      show ?thesis by simp
    next
      case False
      with Suc.prems(1) have le: "length (sent @ [req]) \<le> i" by simp
      from Suc.hyps(2) have n: "n = nat (max_retries cfg + 1 - (retries + 1))" by simp
      from Suc.prems(2) step have
        "Suc i < length (snd (request_loop cfg tr req (retries + 1) (Some e) (sent @ [req])))"
        by simp
      with Suc.hyps(1) [OF n le] show ?thesis .
    qed
  next
    case False
    with in_budget Suc.prems show ?thesis by (simp add: loop_stop)
  qed
qed

text \<open>The headers that leave the client: the caller's dict updated with \<^verbatim>\<open>_get_headers()\<close>.\<close>

lemma req_headers_eq:
  assumes "q \<in> set (snd (request cfg tr method url headers))"
  shows "req_headers q = headers ++ get_headers cfg"
proof -
  let ?req = "\<lparr>req_method = method, req_url = url, req_headers = headers ++ get_headers cfg\<rparr>"
  from loop_sent [of cfg tr ?req 0 None "[]"] obtain j where
    "snd (request cfg tr method url headers) = replicate j ?req"
    by (auto simp: request_def)
  with assms show ?thesis by auto
qed

lemma get_headers_fixed:
  "get_headers cfg ''Content-Type'' = Some ''application/json''"
  "get_headers cfg ''Accept'' = Some ''application/json''"
  "get_headers cfg ''User-Agent'' = Some ''matrix-system/1.0.0''"
  by (simp_all add: get_headers_def Let_def split: option.splits)

lemma get_headers_authorization:
  "get_headers cfg ''Authorization'' =
     (case api_token cfg of None \<Rightarrow> None | Some t \<Rightarrow> if t \<noteq> [] then Some (''Bearer '' @ t) else None)"
  by (simp add: get_headers_def Let_def split: option.splits)

lemma get_headers_other:
  assumes "k \<noteq> ''Content-Type''" "k \<noteq> ''Accept''" "k \<noteq> ''User-Agent''" "k \<noteq> ''Authorization''"
  shows "get_headers cfg k = None"
  using assms by (simp add: get_headers_def Let_def split: option.splits)

text \<open>With budget left the loop makes at least one attempt.\<close>

lemma loop_attempts_once:
  assumes "retries \<le> max_retries cfg"
  shows "\<exists>j. snd (request_loop cfg tr req retries l sent) = sent @ replicate (Suc j) req"
proof (cases "retries < max_retries cfg
    \<and> (tr (length sent) = ConnectFailure \<or> tr (length sent) = TimeoutFailure)")
  case True
  with loop_transient_step [where tr = tr and sent = sent] obtain e where
    step: "request_loop cfg tr req retries l sent =
      request_loop cfg tr req (retries + 1) (Some e) (sent @ [req])" by blast
  from loop_sent [of cfg tr req "retries + 1" "Some e" "sent @ [req]"] obtain j where
    "snd (request_loop cfg tr req (retries + 1) (Some e) (sent @ [req])) =
       (sent @ [req]) @ replicate j req" by blast
  with step have "snd (request_loop cfg tr req retries l sent) = sent @ replicate (Suc j) req"
    by simp
  then show ?thesis by blast
next
  case False
  with assms have "snd (request_loop cfg tr req retries l sent) = sent @ replicate (Suc 0) req"
    by (simp add: loop_stop)
  then show ?thesis by blast
qed

lemma request_sends:
  assumes "0 \<le> max_retries cfg"
  shows "snd (request cfg tr method url headers) \<noteq> []"
proof -
  from loop_attempts_once [OF assms, of tr
      "\<lparr>req_method = method, req_url = url, req_headers = headers ++ get_headers cfg\<rparr>"
      None "[]"]
  show ?thesis unfolding request_def by auto
qed

section \<open>The claims\<close>

text \<open>
  Claim C1. With \<^verbatim>\<open>max_retries = n\<close>, \<open>n \<ge> 0\<close>: when the first \<open>n + 1\<close> transport calls all
  fail to connect, the call makes exactly \<open>n + 1\<close> attempts and raises
  \<^verbatim>\<open>MatrixConnectionError\<close>; when the first \<open>n\<close> fail to connect and attempt \<open>n + 1\<close> receives a
  response with status below 400 whose body is empty or decodes, the call returns the
  decoded payload after \<open>n + 1\<close> attempts; and with \<^verbatim>\<open>max_retries = 0\<close> the call makes exactly
  one attempt, whatever the network does.
\<close>

theorem C1_retry_budget:
  assumes "0 \<le> max_retries cfg"
  shows
   "((\<forall>k \<le> nat (max_retries cfg). tr k = ConnectFailure) \<longrightarrow>
       request cfg tr method url headers =
         (Inl (MatrixConnectionError
                 \<lparr>message = PyStr (connect_message url (max_retries cfg + 1)),
                  status_code = None, response_data = PyDict []\<rparr>),
          replicate (nat (max_retries cfg) + 1)
            \<lparr>req_method = method, req_url = url, req_headers = headers ++ get_headers cfg\<rparr>))
    \<and> ((\<forall>k < nat (max_retries cfg). tr k = ConnectFailure)
         \<and> tr (nat (max_retries cfg)) = Received r \<and> resp_status_code r < 400
         \<and> (resp_content r = [] \<or> resp_json r = Some v) \<longrightarrow>
       request cfg tr method url headers =
         (Inr (if resp_content r = [] then PyDict [] else v),
          replicate (nat (max_retries cfg) + 1)
            \<lparr>req_method = method, req_url = url, req_headers = headers ++ get_headers cfg\<rparr>))
    \<and> (max_retries cfg = 0 \<longrightarrow> length (snd (request cfg tr method url headers)) = 1)"
proof (intro conjI impI)
  let ?n = "nat (max_retries cfg)"
  let ?req = "\<lparr>req_method = method, req_url = url, req_headers = headers ++ get_headers cfg\<rparr>"
  have run: "request cfg tr method url headers =
      request_loop cfg tr ?req (max_retries cfg) None (replicate ?n ?req)"
    if "\<forall>k < ?n. tr k = ConnectFailure"
    using that assms
      loop_transient_run [where tr = tr and sent = "[]" and j = ?n and retries = 0 and cfg = cfg
        and req = ?req and l = None and l' = None]
    by (simp add: request_def)
  {
    assume all: "\<forall>k \<le> ?n. tr k = ConnectFailure"
    then have "request cfg tr method url headers =
      request_loop cfg tr ?req (max_retries cfg) None (replicate ?n ?req)"
      by (intro run) simp
    moreover have "tr (length (replicate ?n ?req)) = ConnectFailure"
      using all by simp
    ultimately show "request cfg tr method url headers =
         (Inl (MatrixConnectionError
                 \<lparr>message = PyStr (connect_message url (max_retries cfg + 1)),
                  status_code = None, response_data = PyDict []\<rparr>),
          replicate (?n + 1) ?req)"
      by (simp add: loop_connect_last new_MatrixConnectionError_def api_error_init_def
          replicate_append_same)
  }
  {
    assume h: "(\<forall>k < ?n. tr k = ConnectFailure)
         \<and> tr ?n = Received r \<and> resp_status_code r < 400
         \<and> (resp_content r = [] \<or> resp_json r = Some v)"
    then have "request cfg tr method url headers =
      request_loop cfg tr ?req (max_retries cfg) None (replicate ?n ?req)"
      by (intro run) simp
    moreover have "tr (length (replicate ?n ?req)) = Received r"
      using h by simp
    moreover have "handle_response cfg r = Inr (if resp_content r = [] then PyDict [] else v)"
      using h by (auto simp: handle_response_def raise_for_status_def)
    ultimately show "request cfg tr method url headers =
         (Inr (if resp_content r = [] then PyDict [] else v), replicate (?n + 1) ?req)"
      by (simp add: loop_received replicate_append_same)
  }
  {
    assume "max_retries cfg = 0"
    then show "length (snd (request cfg tr method url headers)) = 1"
      by (simp add: request_def loop_stop)
  }
qed

theorem C1_retry_budget_witness:
  "0 \<le> max_retries example_config
   \<and> request example_config refuse_all ''GET'' ''http://h'' no_headers =
       (Inl (MatrixConnectionError
               \<lparr>message = PyStr ''Failed to connect to http://h after 3 attempts'',
                status_code = None, response_data = PyDict []\<rparr>),
        replicate 3 (example_request example_config no_headers))
   \<and> request example_config (answer_after 2 (example_response 200 [] None no_headers))
        ''GET'' ''http://h'' no_headers =
       (Inr (PyDict []), replicate 3 (example_request example_config no_headers))
   \<and> length (snd (request no_retry_config time_out_all ''GET'' ''http://h'' no_headers)) = 1"
proof -
  have str3: "str_int 3 = ''3''" by code_simp
  have h: "0 \<le> max_retries example_config" by (simp add: example_config_def)
  have h0: "0 \<le> max_retries no_retry_config" by (simp add: no_retry_config_def)
  have a: "\<forall>k \<le> nat (max_retries example_config). refuse_all k = ConnectFailure"
    by (simp add: refuse_all_def)
  have b: "(\<forall>k < nat (max_retries example_config).
        answer_after 2 (example_response 200 [] None no_headers) k = ConnectFailure)
     \<and> answer_after 2 (example_response 200 [] None no_headers) (nat (max_retries example_config))
         = Received (example_response 200 [] None no_headers)
     \<and> resp_status_code (example_response 200 [] None no_headers) < 400
     \<and> (resp_content (example_response 200 [] None no_headers) = []
        \<or> resp_json (example_response 200 [] None no_headers) = Some PyNone)"
    by (simp add: answer_after_def example_response_def example_config_def)
  have c: "max_retries no_retry_config = 0" by (simp add: no_retry_config_def)
  from C1_retry_budget [OF h, of refuse_all "''GET''" "''http://h''" no_headers] a
  have 1: "request example_config refuse_all ''GET'' ''http://h'' no_headers =
       (Inl (MatrixConnectionError
               \<lparr>message = PyStr ''Failed to connect to http://h after 3 attempts'',
                status_code = None, response_data = PyDict []\<rparr>),
        replicate 3 (example_request example_config no_headers))"
    by (simp add: example_config_def example_request_def connect_message_def str3)
  from C1_retry_budget [OF h, of "answer_after 2 (example_response 200 [] None no_headers)"
      "''GET''" "''http://h''" no_headers "example_response 200 [] None no_headers" PyNone] b
  have 2: "request example_config (answer_after 2 (example_response 200 [] None no_headers))
        ''GET'' ''http://h'' no_headers =
       (Inr (PyDict []), replicate 3 (example_request example_config no_headers))"
    by (simp add: example_config_def example_request_def example_response_def)
  from C1_retry_budget [OF h0, of time_out_all "''GET''" "''http://h''" no_headers] c
  have 3: "length (snd (request no_retry_config time_out_all ''GET'' ''http://h'' no_headers)) = 1"
    by simp
  from h 1 2 3 show ?thesis by simp
qed

text \<open>
  Claim C2. Whatever budget is left (\<open>retries \<le> max_retries\<close>), an attempt that receives a
  response ends the call with the result of \<^verbatim>\<open>_handle_response\<close> for that response, be it a
  value or any exception, after exactly this one further attempt; and every attempt of a
  call that is followed by another attempt ended in a connect failure or a timeout.
\<close>

theorem C2_response_terminal:
  "(retries \<le> max_retries cfg \<and> tr (length sent) = Received r \<longrightarrow>
      request_loop cfg tr req retries last_exception sent =
        (handle_response cfg r, sent @ [req]))
   \<and> (Suc i < length (snd (request cfg tr method url headers)) \<longrightarrow>
        tr i = ConnectFailure \<or> tr i = TimeoutFailure)"
proof (intro conjI impI)
  assume "retries \<le> max_retries cfg \<and> tr (length sent) = Received r"
  then show "request_loop cfg tr req retries last_exception sent =
      (handle_response cfg r, sent @ [req])"
    by (simp add: loop_received)
next
  assume "Suc i < length (snd (request cfg tr method url headers))"
  then show "tr i = ConnectFailure \<or> tr i = TimeoutFailure"
    unfolding request_def by (intro loop_retried_transient [where sent = "[]" and i = i]) simp_all
qed

theorem C2_response_terminal_witness:
  "request_loop example_config
      (answer_after 1 (example_response 404 ''gone'' None no_headers))
      (example_request example_config no_headers) 1 (Some ConnectError)
      [example_request example_config no_headers] =
     (Inl (MatrixNotFoundError
            \<lparr>message = PyStr ''HTTP error 404'', status_code = Some 404,
             response_data = PyDict []\<rparr>),
      [example_request example_config no_headers, example_request example_config no_headers])
   \<and> length (snd (request example_config
        (answer_after 1 (example_response 404 ''gone'' None no_headers))
        ''GET'' ''http://h'' no_headers)) = 2
   \<and> (answer_after 1 (example_response 404 ''gone'' None no_headers) 0 = ConnectFailure
      \<or> answer_after 1 (example_response 404 ''gone'' None no_headers) 0 = TimeoutFailure)"
proof -
  let ?r = "example_response 404 ''gone'' None no_headers"
  let ?req = "example_request example_config no_headers"
  have str: "str_int 404 = ''404''" by code_simp
  have hr: "handle_response example_config ?r =
      Inl (MatrixNotFoundError
            \<lparr>message = PyStr ''HTTP error 404'', status_code = Some 404,
             response_data = PyDict []\<rparr>)"
    by (simp add: handle_response_def raise_for_status_def example_response_def
        extract_error_def new_MatrixNotFoundError_def api_error_init_def str)
  have len: "length (snd (request example_config (answer_after 1 ?r)
      ''GET'' ''http://h'' no_headers)) = 2"
    by code_simp
  have a: "(1::int) \<le> max_retries example_config
      \<and> answer_after 1 ?r (length [?req]) = Received ?r"
    by (simp add: example_config_def answer_after_def)
  have b: "Suc 0 < length (snd (request example_config (answer_after 1 ?r)
      ''GET'' ''http://h'' no_headers))"
    using len by simp
  from C2_response_terminal [of 1 example_config "answer_after 1 ?r" "[?req]" ?r ?req
      "Some ConnectError" 0 "''GET''" "''http://h''" no_headers] a b hr len
  show ?thesis by simp
qed

text \<open>
  Claim C3. The claim asks that a response with status 400 or above and a body that is not
  JSON is still classified into the typed error of its status. The message does fall back
  to the status text, and the branches for 401, 403, 404 and 429 do not read the decoded
  body; but the 422 branch and the generic branch read \<^verbatim>\<open>error_data\<close>, which is assigned
  only when \<^verbatim>\<open>json()\<close> returned: a status 500 and a status 422 with a plain-text body both
  end in \<^verbatim>\<open>UnboundLocalError\<close>, where the docstring of the method promises
  \<^verbatim>\<open>MatrixAPIError\<close> and \<^verbatim>\<open>MatrixValidationError\<close>.
\<close>

theorem C3_non_json_error_body_unbound:
  "handle_response example_config
      (example_response 500 ''Internal Server Error'' None no_headers) =
     Inl (UnboundLocalError ''error_data'')
   \<and> handle_response example_config
      (example_response 422 ''Unprocessable Entity'' None no_headers) =
     Inl (UnboundLocalError ''error_data'')"
  by (simp add: handle_response_def raise_for_status_def example_response_def extract_error_def)

text \<open>
  Claim C4. As stated the claim fails for timeouts: the message of the terminal
  \<^verbatim>\<open>MatrixTimeoutError\<close> is built from the URL and the configured timeout only. With a
  timeout of 10 seconds and \<^verbatim>\<open>max_retries = 2\<close>, three attempts time out and the message
  does not contain \<^verbatim>\<open>3\<close>.
\<close>

theorem C4_timeout_message_counterexample:
  "fst (request short_timeout_config time_out_all ''GET'' ''http://h'' no_headers) =
     Inl (MatrixTimeoutError
           \<lparr>message = PyStr ''Request to http://h timed out after 10s'',
            status_code = None, response_data = PyDict []\<rparr>)
   \<and> length (snd (request short_timeout_config time_out_all ''GET'' ''http://h'' no_headers)) = 3
   \<and> str_int 3 = ''3''
   \<and> \<not> sublist ''3'' ''Request to http://h timed out after 10s''"
proof -
  let ?req = "\<lparr>req_method = ''GET'', req_url = ''http://h'',
      req_headers = no_headers ++ get_headers short_timeout_config\<rparr>"
  have str: "str_int 10 = ''10''" "str_int 3 = ''3''" by code_simp+
  have "request short_timeout_config time_out_all ''GET'' ''http://h'' no_headers =
      request_loop short_timeout_config time_out_all ?req 2 None (replicate 2 ?req)"
    using loop_transient_run [where tr = time_out_all and sent = "[]" and j = 2 and retries = 0
        and cfg = short_timeout_config and req = ?req and l = None and l' = None]
    by (simp add: request_def time_out_all_def short_timeout_config_def)
  also have "\<dots> = (Inl (new_MatrixTimeoutError (timeout_message short_timeout_config ''http://h'')),
      replicate 2 ?req @ [?req])"
    by (subst loop_timeout_last) (simp_all add: time_out_all_def short_timeout_config_def)
  finally have run: "request short_timeout_config time_out_all ''GET'' ''http://h'' no_headers =
      (Inl (new_MatrixTimeoutError (timeout_message short_timeout_config ''http://h'')),
      replicate 2 ?req @ [?req])" .
  have msg: "timeout_message short_timeout_config ''http://h'' =
      ''Request to http://h timed out after 10s''"
    by (simp add: timeout_message_def short_timeout_config_def str)
  have absent: "\<not> sublist ''3'' ''Request to http://h timed out after 10s''"
    by code_simp
  from run msg absent str(2) show ?thesis
    by (simp add: new_MatrixTimeoutError_def api_error_init_def)
qed

text \<open>
  Claim C4, amended. When every attempt of the budget ends in a connect failure or a
  timeout, the call makes \<open>max_retries + 1\<close> attempts and the last failure decides the
  error: after a connect failure, \<^verbatim>\<open>MatrixConnectionError\<close> whose message names the number of
  attempts made; after a timeout, \<^verbatim>\<open>MatrixTimeoutError\<close> whose message names the URL and the
  configured timeout in seconds.
\<close>

theorem C4_terminal_messages:
  assumes "0 \<le> max_retries cfg"
    and "\<forall>k < nat (max_retries cfg). tr k = ConnectFailure \<or> tr k = TimeoutFailure"
  shows
   "(tr (nat (max_retries cfg)) = ConnectFailure \<longrightarrow>
       fst (request cfg tr method url headers) =
         Inl (MatrixConnectionError
               \<lparr>message = PyStr (''Failed to connect to '' @ url @ '' after ''
                    @ str_int (int (length (snd (request cfg tr method url headers))))
                    @ '' attempts''),
                status_code = None, response_data = PyDict []\<rparr>)
       \<and> int (length (snd (request cfg tr method url headers))) = max_retries cfg + 1)
    \<and> (tr (nat (max_retries cfg)) = TimeoutFailure \<longrightarrow>
       fst (request cfg tr method url headers) =
         Inl (MatrixTimeoutError
               \<lparr>message = PyStr (''Request to '' @ url @ '' timed out after ''
                    @ str_int (timeout cfg) @ ''s''),
                status_code = None, response_data = PyDict []\<rparr>)
       \<and> int (length (snd (request cfg tr method url headers))) = max_retries cfg + 1)"
proof -
  let ?n = "nat (max_retries cfg)"
  let ?req = "\<lparr>req_method = method, req_url = url, req_headers = headers ++ get_headers cfg\<rparr>"
  have run: "request cfg tr method url headers =
      request_loop cfg tr ?req (max_retries cfg) None (replicate ?n ?req)"
    using assms
      loop_transient_run [where tr = tr and sent = "[]" and j = ?n and retries = 0 and cfg = cfg
        and req = ?req and l = None and l' = None]
    by (simp add: request_def)
  have connect: "request cfg tr method url headers =
      (Inl (new_MatrixConnectionError (connect_message url (max_retries cfg + 1))),
       replicate ?n ?req @ [?req])"
    if "tr ?n = ConnectFailure"
    unfolding run using that by (subst loop_connect_last) simp_all
  have timeout: "request cfg tr method url headers =
      (Inl (new_MatrixTimeoutError (timeout_message cfg url)), replicate ?n ?req @ [?req])"
    if "tr ?n = TimeoutFailure"
    unfolding run using that by (subst loop_timeout_last) simp_all
  have len: "int (length (replicate ?n ?req @ [?req])) = max_retries cfg + 1"
    using assms(1) by simp
  show ?thesis
  proof (intro conjI impI)
    assume c: "tr ?n = ConnectFailure"
    show "int (length (snd (request cfg tr method url headers))) = max_retries cfg + 1"
      using connect [OF c] len by simp
    then show "fst (request cfg tr method url headers) =
         Inl (MatrixConnectionError
               \<lparr>message = PyStr (''Failed to connect to '' @ url @ '' after ''
                    @ str_int (int (length (snd (request cfg tr method url headers))))
                    @ '' attempts''),
                status_code = None, response_data = PyDict []\<rparr>)"
      using connect [OF c]
      by (simp add: new_MatrixConnectionError_def api_error_init_def connect_message_def
          add.commute)
  next
    assume t: "tr ?n = TimeoutFailure"
    show "int (length (snd (request cfg tr method url headers))) = max_retries cfg + 1"
      using timeout [OF t] len by simp
    show "fst (request cfg tr method url headers) =
         Inl (MatrixTimeoutError
               \<lparr>message = PyStr (''Request to '' @ url @ '' timed out after ''
                    @ str_int (timeout cfg) @ ''s''),
                status_code = None, response_data = PyDict []\<rparr>)"
      using timeout [OF t]
      by (simp add: new_MatrixTimeoutError_def api_error_init_def timeout_message_def)
  qed
qed

theorem C4_terminal_messages_witness:
  "fst (request example_config refuse_all ''GET'' ''http://h'' no_headers) =
     Inl (MatrixConnectionError
           \<lparr>message = PyStr ''Failed to connect to http://h after 3 attempts'',
            status_code = None, response_data = PyDict []\<rparr>)
   \<and> int (length (snd (request example_config refuse_all ''GET'' ''http://h'' no_headers))) = 3
   \<and> fst (request example_config time_out_all ''GET'' ''http://h'' no_headers) =
     Inl (MatrixTimeoutError
           \<lparr>message = PyStr ''Request to http://h timed out after 30s'',
            status_code = None, response_data = PyDict []\<rparr>)
   \<and> int (length (snd (request example_config time_out_all ''GET'' ''http://h'' no_headers))) = 3"
proof -
  have str: "str_int 3 = ''3''" "str_int 30 = ''30''" by code_simp+
  have m: "0 \<le> max_retries example_config" by (simp add: example_config_def)
  have a: "\<forall>k < nat (max_retries example_config).
      refuse_all k = ConnectFailure \<or> refuse_all k = TimeoutFailure"
    by (simp add: refuse_all_def)
  have b: "\<forall>k < nat (max_retries example_config).
      time_out_all k = ConnectFailure \<or> time_out_all k = TimeoutFailure"
    by (simp add: time_out_all_def)
  have la: "refuse_all (nat (max_retries example_config)) = ConnectFailure"
    by (simp add: refuse_all_def)
  have lb: "time_out_all (nat (max_retries example_config)) = TimeoutFailure"
    by (simp add: time_out_all_def)
  from C4_terminal_messages [of example_config refuse_all "''GET''" "''http://h''" no_headers,
      OF m a] la
  have 1: "fst (request example_config refuse_all ''GET'' ''http://h'' no_headers) =
     Inl (MatrixConnectionError
           \<lparr>message = PyStr ''Failed to connect to http://h after 3 attempts'',
            status_code = None, response_data = PyDict []\<rparr>)
   \<and> int (length (snd (request example_config refuse_all ''GET'' ''http://h'' no_headers))) = 3"
    by (simp add: example_config_def str)
  from C4_terminal_messages [of example_config time_out_all "''GET''" "''http://h''" no_headers,
      OF m b] lb
  have 2: "fst (request example_config time_out_all ''GET'' ''http://h'' no_headers) =
     Inl (MatrixTimeoutError
           \<lparr>message = PyStr ''Request to http://h timed out after 30s'',
            status_code = None, response_data = PyDict []\<rparr>)
   \<and> int (length (snd (request example_config time_out_all ''GET'' ''http://h'' no_headers))) = 3"
    by (simp add: example_config_def str)
  from 1 2 show ?thesis by simp
qed

text \<open>
  Claim C5. As stated the claim fails: the hint is only ever appended, the text that the
  server sent is passed on as it is. With a token configured and a \<^verbatim>\<open>detail\<close> that already
  carries the hint text, the message of the \<^verbatim>\<open>MatrixAuthError\<close> contains the hint.
\<close>

theorem C5_hint_echo_counterexample:
  "token_configured example_config_token
   \<and> handle_response example_config_token
        (example_response 401 ''denied'' (Some (PyDict [(''detail'', PyStr echo_detail)]))
           no_headers) =
       Inl (MatrixAuthError
             \<lparr>message = PyStr echo_detail, status_code = Some 401, response_data = PyDict []\<rparr>)
   \<and> sublist
        ('' (token missing: set MATRIX_HUB_TOKEN / MATRIX_TOKEN / API_TOKEN ''
         @ ''for operator/admin endpoints like install/remotes/ingest)'')
        echo_detail"
proof -
  have "token_configured example_config_token"
    by (simp add: token_configured_def example_config_token_def)
  moreover have "handle_response example_config_token
        (example_response 401 ''denied'' (Some (PyDict [(''detail'', PyStr echo_detail)]))
           no_headers) =
       Inl (MatrixAuthError
             \<lparr>message = PyStr echo_detail, status_code = Some 401, response_data = PyDict []\<rparr>)"
    by (simp add: handle_response_def raise_for_status_def example_response_def
        extract_error_def new_MatrixAuthError_def api_error_init_def py_str_def
        token_configured_def example_config_token_def)
  moreover have "sublist
        ('' (token missing: set MATRIX_HUB_TOKEN / MATRIX_TOKEN / API_TOKEN ''
         @ ''for operator/admin endpoints like install/remotes/ingest)'')
        echo_detail"
    unfolding echo_detail_def
    using sublist_appendI [of
        "'' (token missing: set MATRIX_HUB_TOKEN / MATRIX_TOKEN / API_TOKEN ''
         @ ''for operator/admin endpoints like install/remotes/ingest)''" "''denied''" "[]"]
    by simp
  ultimately show ?thesis by blast
qed

text \<open>
  Claim C5, amended. A response with status 401 or 403 raises \<^verbatim>\<open>MatrixAuthError\<close> with that
  status. Its message is the extracted message followed by the missing-token hint, the
  text spelled out below, when no token is configured, and the extracted message with
  nothing appended when a token is configured. So whenever the extracted message does not
  itself contain the hint, the message contains the hint if and only if no token is
  configured.
\<close>

theorem C5_auth_message:
  assumes "resp_status_code r = 401 \<or> resp_status_code r = 403"
  shows
   "token_hint =
      '' (token missing: set MATRIX_HUB_TOKEN / MATRIX_TOKEN / API_TOKEN ''
      @ ''for operator/admin endpoints like install/remotes/ingest)''
    \<and> (\<not> token_configured cfg \<longrightarrow>
       handle_response cfg r =
         Inl (MatrixAuthError
               \<lparr>message = PyStr (py_str (snd (extract_error r)) @ token_hint),
                status_code = Some (resp_status_code r), response_data = PyDict []\<rparr>))
    \<and> (token_configured cfg \<longrightarrow>
       handle_response cfg r =
         Inl (MatrixAuthError
               \<lparr>message = PyStr (py_str (snd (extract_error r))),
                status_code = Some (resp_status_code r), response_data = PyDict []\<rparr>))
    \<and> (\<not> sublist token_hint (py_str (snd (extract_error r))) \<longrightarrow>
       (\<exists>text.
          handle_response cfg r =
            Inl (MatrixAuthError
                  \<lparr>message = PyStr text, status_code = Some (resp_status_code r),
                   response_data = PyDict []\<rparr>)
          \<and> (sublist token_hint text \<longleftrightarrow> \<not> token_configured cfg)))"
proof -
  let ?m = "py_str (snd (extract_error r))"
  have hint: "token_hint =
      '' (token missing: set MATRIX_HUB_TOKEN / MATRIX_TOKEN / API_TOKEN ''
      @ ''for operator/admin endpoints like install/remotes/ingest)''"
    by (simp add: token_hint_def)
  have without: "handle_response cfg r =
      Inl (MatrixAuthError
            \<lparr>message = PyStr (?m @ token_hint),
             status_code = Some (resp_status_code r), response_data = PyDict []\<rparr>)"
    if "\<not> token_configured cfg"
    using that assms
    by (auto simp: handle_response_def raise_for_status_def new_MatrixAuthError_def
        api_error_init_def)
  have with_token: "handle_response cfg r =
      Inl (MatrixAuthError
            \<lparr>message = PyStr ?m,
             status_code = Some (resp_status_code r), response_data = PyDict []\<rparr>)"
    if "token_configured cfg"
    using that assms
    by (auto simp: handle_response_def raise_for_status_def new_MatrixAuthError_def
        api_error_init_def)
  have iff: "\<exists>text.
          handle_response cfg r =
            Inl (MatrixAuthError
                  \<lparr>message = PyStr text, status_code = Some (resp_status_code r),
                   response_data = PyDict []\<rparr>)
          \<and> (sublist token_hint text \<longleftrightarrow> \<not> token_configured cfg)"
    if no_echo: "\<not> sublist token_hint ?m"
  proof (cases "token_configured cfg")
    case True
    with with_token no_echo show ?thesis by blast
  next
    case False
    have "sublist token_hint (?m @ token_hint)"
      using sublist_appendI [of token_hint ?m "[]"] by simp
    with without [OF False] False show ?thesis by blast
  qed
  from hint without with_token iff show ?thesis by blast
qed

theorem C5_auth_message_witness:
  "handle_response example_config
      (example_response 401 ''denied'' (Some (PyDict [(''detail'', PyStr ''denied'')])) no_headers) =
     Inl (MatrixAuthError
           \<lparr>message = PyStr echo_detail, status_code = Some 401, response_data = PyDict []\<rparr>)
   \<and> handle_response example_config_token
      (example_response 403 ''denied'' (Some (PyDict [(''detail'', PyStr ''denied'')])) no_headers) =
     Inl (MatrixAuthError
           \<lparr>message = PyStr ''denied'', status_code = Some 403, response_data = PyDict []\<rparr>)
   \<and> sublist token_hint echo_detail
   \<and> \<not> sublist token_hint ''denied''"
proof -
  let ?d = "Some (PyDict [(''detail'', PyStr ''denied'')])"
  let ?r1 = "example_response 401 ''denied'' ?d no_headers"
  let ?r3 = "example_response 403 ''denied'' ?d no_headers"
  have a: "resp_status_code ?r1 = 401 \<or> resp_status_code ?r1 = 403"
    by (simp add: example_response_def)
  have b: "resp_status_code ?r3 = 401 \<or> resp_status_code ?r3 = 403"
    by (simp add: example_response_def)
  have no_token: "\<not> token_configured example_config"
    by (simp add: token_configured_def example_config_def)
  have token: "token_configured example_config_token"
    by (simp add: token_configured_def example_config_token_def)
  have m1: "py_str (snd (extract_error ?r1)) = ''denied''"
    and m3: "py_str (snd (extract_error ?r3)) = ''denied''"
    by (simp_all add: example_response_def extract_error_def py_str_def)
  have no_echo: "\<not> sublist token_hint ''denied''"
    unfolding token_hint_def by code_simp
  have echo: "''denied'' @ token_hint = echo_detail"
    by (simp add: token_hint_def echo_detail_def)
  from C5_auth_message [OF a, of example_config] no_token no_echo
  have 1: "handle_response example_config ?r1 =
     Inl (MatrixAuthError
           \<lparr>message = PyStr echo_detail, status_code = Some 401, response_data = PyDict []\<rparr>)
     \<and> sublist token_hint echo_detail"
    unfolding m1 echo by (auto simp: example_response_def)
  from C5_auth_message [OF b, of example_config_token] token
  have 3: "handle_response example_config_token ?r3 =
     Inl (MatrixAuthError
           \<lparr>message = PyStr ''denied'', status_code = Some 403, response_data = PyDict []\<rparr>)"
    unfolding m3 by (simp add: example_response_def)
  from 1 3 no_echo show ?thesis by blast
qed

text \<open>
  Claim C6. A response with status 422 whose body decodes to the JSON object
  \<^verbatim>\<open>{"detail": "bad field"}\<close> raises \<^verbatim>\<open>MatrixValidationError\<close> with message \<^verbatim>\<open>bad field\<close>, status
  422 and the decoded body, unchanged, as its response data.
\<close>

theorem C6_validation_detail:
  assumes "resp_status_code r = 422"
    and "resp_json r = Some (PyDict [(''detail'', PyStr ''bad field'')])"
  shows "handle_response cfg r =
    Inl (MatrixValidationError
          \<lparr>message = PyStr ''bad field'', status_code = Some 422,
           response_data = PyDict [(''detail'', PyStr ''bad field'')]\<rparr>)"
  using assms
  by (simp add: handle_response_def raise_for_status_def extract_error_def
      new_MatrixValidationError_def api_error_init_def Let_def)

theorem C6_validation_detail_witness:
  \<open>handle_response example_config
      (example_response 422 ''{"detail": "bad field"}''
         (Some (PyDict [(''detail'', PyStr ''bad field'')])) no_headers) =
    Inl (MatrixValidationError
          \<lparr>message = PyStr ''bad field'', status_code = Some 422,
           response_data = PyDict [(''detail'', PyStr ''bad field'')]\<rparr>)\<close>
proof -
  let ?r = \<open>example_response 422 ''{"detail": "bad field"}''
         (Some (PyDict [(''detail'', PyStr ''bad field'')])) no_headers\<close>
  have a: "resp_status_code ?r = 422" by (simp add: example_response_def)
  have b: "resp_json ?r = Some (PyDict [(''detail'', PyStr ''bad field'')])"
    by (simp add: example_response_def)
  from C6_validation_detail [OF a b, of example_config] show ?thesis .
qed

text \<open>
  Claim C7. A call (with \<^verbatim>\<open>max_retries\<close> at least 0) whose first attempt receives a response
  with status 429 raises \<^verbatim>\<open>MatrixRateLimitError\<close> after exactly that one attempt:
  with \<^verbatim>\<open>retry_after = 7\<close> when the \<^verbatim>\<open>Retry-After\<close> header is \<^verbatim>\<open>7\<close>, and with no
  \<^verbatim>\<open>retry_after\<close> when the header is absent.
\<close>

theorem C7_rate_limit:
  assumes "resp_status_code r = 429" and "0 \<le> max_retries cfg" and "tr 0 = Received r"
  shows
   "(resp_headers r ''Retry-After'' = Some ''7'' \<longrightarrow>
       request cfg tr method url headers =
         (Inl (MatrixRateLimitError
                \<lparr>message = snd (extract_error r), status_code = Some 429,
                 response_data = PyDict []\<rparr> (Some 7)),
          [\<lparr>req_method = method, req_url = url, req_headers = headers ++ get_headers cfg\<rparr>]))
    \<and> (resp_headers r ''Retry-After'' = None \<longrightarrow>
       request cfg tr method url headers =
         (Inl (MatrixRateLimitError
                \<lparr>message = snd (extract_error r), status_code = Some 429,
                 response_data = PyDict []\<rparr> None),
          [\<lparr>req_method = method, req_url = url, req_headers = headers ++ get_headers cfg\<rparr>]))"
proof -
  have seven: "py_int ''7'' = Some 7" by code_simp
  have loop: "request cfg tr method url headers =
      (handle_response cfg r,
       [\<lparr>req_method = method, req_url = url, req_headers = headers ++ get_headers cfg\<rparr>])"
    using assms(2,3) by (simp add: request_def loop_received)
  have present: "handle_response cfg r =
      Inl (MatrixRateLimitError
            \<lparr>message = snd (extract_error r), status_code = Some 429,
             response_data = PyDict []\<rparr> (Some 7))"
    if "resp_headers r ''Retry-After'' = Some ''7''"
    using that assms(1) seven
    by (simp add: handle_response_def raise_for_status_def new_MatrixRateLimitError_def
        api_error_init_def Let_def)
  have absent: "handle_response cfg r =
      Inl (MatrixRateLimitError
            \<lparr>message = snd (extract_error r), status_code = Some 429,
             response_data = PyDict []\<rparr> None)"
    if "resp_headers r ''Retry-After'' = None"
    using that assms(1)
    by (simp add: handle_response_def raise_for_status_def new_MatrixRateLimitError_def
        api_error_init_def Let_def)
  from loop present absent show ?thesis by simp
qed

theorem C7_rate_limit_witness:
  "request example_config
      (answer_after 0 (example_response 429 ''slow down'' None [''Retry-After'' \<mapsto> ''7'']))
      ''GET'' ''http://h'' no_headers =
     (Inl (MatrixRateLimitError
            \<lparr>message = PyStr ''HTTP error 429'', status_code = Some 429,
             response_data = PyDict []\<rparr> (Some 7)),
      [example_request example_config no_headers])
   \<and> request example_config
      (answer_after 0 (example_response 429 ''slow down'' None no_headers))
      ''GET'' ''http://h'' no_headers =
     (Inl (MatrixRateLimitError
            \<lparr>message = PyStr ''HTTP error 429'', status_code = Some 429,
             response_data = PyDict []\<rparr> None),
      [example_request example_config no_headers])"
proof -
  let ?with = "example_response 429 ''slow down'' None [''Retry-After'' \<mapsto> ''7'']"
  let ?without = "example_response 429 ''slow down'' None no_headers"
  have str: "str_int 429 = ''429''" by code_simp
  have s1: "resp_status_code ?with = 429" and s2: "resp_status_code ?without = 429"
    by (simp_all add: example_response_def)
  have m: "0 \<le> max_retries example_config" by (simp add: example_config_def)
  have t1: "answer_after 0 ?with 0 = Received ?with"
    and t2: "answer_after 0 ?without 0 = Received ?without"
    by (simp_all add: answer_after_def)
  have h1: "resp_headers ?with ''Retry-After'' = Some ''7''"
    by (simp add: example_response_def)
  have h2: "resp_headers ?without ''Retry-After'' = None"
    by (simp add: example_response_def no_headers_def)
  from C7_rate_limit [of ?with example_config "answer_after 0 ?with"
      "''GET''" "''http://h''" no_headers, OF s1 m t1] h1
    C7_rate_limit [of ?without example_config "answer_after 0 ?without"
      "''GET''" "''http://h''" no_headers, OF s2 m t2] h2
  show ?thesis
    by (simp add: example_response_def example_request_def extract_error_def str)
qed

text \<open>
  Claim C8. For a response with status below 400: an empty body returns the empty dict; a
  non-empty body that decodes returns the decoded value; a non-empty body that does not
  decode raises the decoding error, which leaves the retry loop after this one attempt
  whatever budget is left.
\<close>

theorem C8_success_decoding:
  assumes "resp_status_code r < 400"
  shows
   "(resp_content r = [] \<longrightarrow> handle_response cfg r = Inr (PyDict []))
    \<and> (resp_content r \<noteq> [] \<and> resp_json r = Some v \<longrightarrow> handle_response cfg r = Inr v)
    \<and> (resp_content r \<noteq> [] \<and> resp_json r = None \<longrightarrow>
         handle_response cfg r = Inl JSONDecodeError
         \<and> (retries \<le> max_retries cfg \<and> tr (length sent) = Received r \<longrightarrow>
              request_loop cfg tr req retries last_exception sent =
                (Inl JSONDecodeError, sent @ [req])))"
  using assms
  by (auto simp: handle_response_def raise_for_status_def loop_received)

theorem C8_success_decoding_witness:
  \<open>handle_response example_config (example_response 200 [] None no_headers) = Inr (PyDict [])
   \<and> handle_response example_config
       (example_response 200 ''{"status":"ok"}'' (Some (PyDict [(''status'', PyStr ''ok'')]))
          no_headers) =
      Inr (PyDict [(''status'', PyStr ''ok'')])
   \<and> request_loop example_config (answer_after 0 (example_response 200 ''<html>'' None no_headers))
       (example_request example_config no_headers) 0 None [] =
      (Inl JSONDecodeError, [example_request example_config no_headers])\<close>
proof -
  let ?empty = "example_response 200 [] None no_headers"
  let ?ok = \<open>example_response 200 ''{"status":"ok"}'' (Some (PyDict [(''status'', PyStr ''ok'')]))
          no_headers\<close>
  let ?bad = "example_response 200 ''<html>'' None no_headers"
  have s1: "resp_status_code ?empty < 400" and s2: "resp_status_code ?ok < 400"
    and s3: "resp_status_code ?bad < 400"
    by (simp_all add: example_response_def)
  have e: "resp_content ?empty = []" by (simp add: example_response_def)
  have o: "resp_content ?ok \<noteq> [] \<and> resp_json ?ok = Some (PyDict [(''status'', PyStr ''ok'')])"
    by (simp add: example_response_def)
  have b: "resp_content ?bad \<noteq> [] \<and> resp_json ?bad = None"
    by (simp add: example_response_def)
  have l: "(0::int) \<le> max_retries example_config \<and> answer_after 0 ?bad (length ([] :: http_request list)) = Received ?bad"
    by (simp add: example_config_def answer_after_def)
  from C8_success_decoding [OF s1, where cfg = example_config] e
  have 1: "handle_response example_config ?empty = Inr (PyDict [])" by blast
  from C8_success_decoding [OF s2, where v = "PyDict [(''status'', PyStr ''ok'')]"
      and cfg = example_config] o
  have 2: "handle_response example_config ?ok = Inr (PyDict [(''status'', PyStr ''ok'')])" by blast
  from C8_success_decoding [OF s3, where cfg = example_config and retries = 0
      and tr = "answer_after 0 ?bad" and sent = "[]"
      and req = "example_request example_config no_headers" and last_exception = None] b l
  have 3: "request_loop example_config (answer_after 0 ?bad)
       (example_request example_config no_headers) 0 None [] =
      (Inl JSONDecodeError, [example_request example_config no_headers])" by simp
  from 1 2 3 show ?thesis by simp
qed

text \<open>
  Claim C9. Every request that \<^verbatim>\<open>request\<close> hands to the transport carries the client's
  \<^verbatim>\<open>Content-Type\<close>, \<^verbatim>\<open>Accept\<close> and \<^verbatim>\<open>User-Agent\<close>, whatever the caller supplied under these keys,
  and \<^verbatim>\<open>Authorization: Bearer <token>\<close> when a token is configured; with no token configured
  the caller's \<^verbatim>\<open>Authorization\<close> entry (or its absence) is kept; every other key is as the
  caller supplied it.
\<close>

theorem C9_header_injection:
  assumes "q \<in> set (snd (request cfg tr method url headers))"
  shows
   "req_headers q ''Content-Type'' = Some ''application/json''
    \<and> req_headers q ''Accept'' = Some ''application/json''
    \<and> req_headers q ''User-Agent'' = Some ''matrix-system/1.0.0''
    \<and> (api_token cfg = Some t \<and> t \<noteq> [] \<longrightarrow>
         req_headers q ''Authorization'' = Some (''Bearer '' @ t))
    \<and> (\<not> token_configured cfg \<longrightarrow>
         req_headers q ''Authorization'' = headers ''Authorization'')
    \<and> (k \<notin> {''Content-Type'', ''Accept'', ''User-Agent'', ''Authorization''} \<longrightarrow>
         req_headers q k = headers k)"
proof -
  have q: "req_headers q = headers ++ get_headers cfg"
    using assms by (rule req_headers_eq)
  have fixed: "req_headers q ''Content-Type'' = Some ''application/json''"
    "req_headers q ''Accept'' = Some ''application/json''"
    "req_headers q ''User-Agent'' = Some ''matrix-system/1.0.0''"
    by (simp_all only: q map_add_def get_headers_fixed option.case)
  have token: "req_headers q ''Authorization'' = Some (''Bearer '' @ t)"
    if "api_token cfg = Some t \<and> t \<noteq> []"
    using that by (simp add: q map_add_def get_headers_authorization)
  have no_token: "req_headers q ''Authorization'' = headers ''Authorization''"
    if "\<not> token_configured cfg"
    using that
    by (cases "api_token cfg")
      (simp_all add: q map_add_def get_headers_authorization token_configured_def)
  have other: "req_headers q k = headers k"
    if "k \<notin> {''Content-Type'', ''Accept'', ''User-Agent'', ''Authorization''}"
  proof -
    from that have "get_headers cfg k = None"
      by (intro get_headers_other) blast+
    then show ?thesis by (simp add: q map_add_def)
  qed
  from fixed token no_token other show ?thesis by blast
qed

theorem C9_header_injection_witness:
  "req_headers (hd (snd (request example_config_token refuse_all ''GET'' ''http://h''
       caller_headers))) ''Content-Type'' = Some ''application/json''
   \<and> req_headers (hd (snd (request example_config_token refuse_all ''GET'' ''http://h''
       caller_headers))) ''Authorization'' = Some ''Bearer s3cr3t''
   \<and> req_headers (hd (snd (request example_config_token refuse_all ''GET'' ''http://h''
       caller_headers))) ''X-Trace'' = Some ''t1''
   \<and> req_headers (hd (snd (request example_config refuse_all ''GET'' ''http://h''
       caller_headers))) ''Authorization'' = Some ''Basic abc''"
proof -
  let ?with = "snd (request example_config_token refuse_all ''GET'' ''http://h'' caller_headers)"
  let ?without = "snd (request example_config refuse_all ''GET'' ''http://h'' caller_headers)"
  have "0 \<le> max_retries example_config_token" and "0 \<le> max_retries example_config"
    by (simp_all add: example_config_token_def example_config_def)
  then have "?with \<noteq> []" and "?without \<noteq> []"
    by (simp_all add: request_sends)
  then have m1: "hd ?with \<in> set ?with" and m2: "hd ?without \<in> set ?without"
    by simp_all
  have tok: "api_token example_config_token = Some ''s3cr3t'' \<and> ''s3cr3t'' \<noteq> []"
    by (simp add: example_config_token_def)
  have no_tok: "\<not> token_configured example_config"
    by (simp add: token_configured_def example_config_def)
  have other: "''X-Trace'' \<notin> {''Content-Type'', ''Accept'', ''User-Agent'', ''Authorization''}"
    by simp
  have ch: "caller_headers ''X-Trace'' = Some ''t1''"
    "caller_headers ''Authorization'' = Some ''Basic abc''"
    by (simp_all add: caller_headers_def)
  from C9_header_injection [OF m1, of "''s3cr3t''" "''X-Trace''"] tok other
  have 1: "req_headers (hd ?with) ''Content-Type'' = Some ''application/json''
    \<and> req_headers (hd ?with) ''Authorization'' = Some ''Bearer s3cr3t''
    \<and> req_headers (hd ?with) ''X-Trace'' = caller_headers ''X-Trace''"
    by simp
  from C9_header_injection [OF m2, of "''s3cr3t''" "''X-Trace''"] no_tok
  have 2: "req_headers (hd ?without) ''Authorization'' = caller_headers ''Authorization''"
    by blast
  from 1 2 ch show ?thesis by simp
qed

text \<open>
  Claim C10. A response with status 429 whose \<^verbatim>\<open>Retry-After\<close> header is present, not empty
  and not the text of a decimal integer (\<open>int_text\<close>: whitespace, an optional sign, digits
  in groups joined by single underscores, whitespace) makes \<^verbatim>\<open>_handle_response\<close> raise
  \<^verbatim>\<open>ValueError\<close> instead of \<^verbatim>\<open>MatrixRateLimitError\<close>, and \<^verbatim>\<open>request\<close> passes that
  \<^verbatim>\<open>ValueError\<close> on to its caller.
\<close>

theorem C10_retry_after_not_integer:
  assumes "resp_status_code r = 429"
    and "resp_headers r ''Retry-After'' = Some v" and "v \<noteq> []" and "\<not> int_text v"
  shows "handle_response cfg r = Inl ValueError
    \<and> (0 \<le> max_retries cfg \<and> tr 0 = Received r \<longrightarrow>
         request cfg tr method url headers =
           (Inl ValueError,
            [\<lparr>req_method = method, req_url = url, req_headers = headers ++ get_headers cfg\<rparr>]))"
proof -
  from assms(4) have "py_int v = None" by (simp add: py_int_rejects)
  with assms(1-3) have "handle_response cfg r = Inl ValueError"
    by (simp add: handle_response_def raise_for_status_def Let_def)
  then show ?thesis by (simp add: request_def loop_received)
qed

theorem C10_retry_after_not_integer_witness:
  "handle_response example_config
      (example_response 429 ''slow down'' None
         [''Retry-After'' \<mapsto> ''Wed, 21 Oct 2015 07:28:00 GMT'']) = Inl ValueError
   \<and> request example_config
      (answer_after 0 (example_response 429 ''slow down'' None
         [''Retry-After'' \<mapsto> ''Wed, 21 Oct 2015 07:28:00 GMT'']))
      ''GET'' ''http://h'' no_headers =
     (Inl ValueError, [example_request example_config no_headers])"
proof -
  let ?r = "example_response 429 ''slow down'' None
         [''Retry-After'' \<mapsto> ''Wed, 21 Oct 2015 07:28:00 GMT'']"
  have s: "resp_status_code ?r = 429" by (simp add: example_response_def)
  have h: "resp_headers ?r ''Retry-After'' = Some ''Wed, 21 Oct 2015 07:28:00 GMT''"
    by (simp add: example_response_def)
  have ne: "''Wed, 21 Oct 2015 07:28:00 GMT'' \<noteq> []" by simp
  have "py_int ''Wed, 21 Oct 2015 07:28:00 GMT'' = None" by code_simp
  then have bad: "\<not> int_text ''Wed, 21 Oct 2015 07:28:00 GMT''"
    by (rule py_int_rejects [THEN iffD1])
  have m: "0 \<le> max_retries example_config \<and> answer_after 0 ?r 0 = Received ?r"
    by (simp add: example_config_def answer_after_def)
  from C10_retry_after_not_integer [of ?r "''Wed, 21 Oct 2015 07:28:00 GMT''" example_config
      "answer_after 0 ?r" "''GET''" "''http://h''" no_headers, OF s h ne bad] m
  show ?thesis by (simp add: example_request_def)
qed

end
